theory Spec2Isabelle
  imports Main "HOL-Library.Word" "HOL-Library.Sublist"
begin

section \<open>Liam robot mower: the sketch \<^verbatim>\<open>Liam.ino\<close> as a state-passing program\<close>

text \<open>
  The sketch is the orchestrator of the mower: \<^verbatim>\<open>setup()\<close> runs once at boot and
  \<^verbatim>\<open>loop()\<close> once per control cycle. Everything it does to the outside goes through
  collaborator objects (\<^verbatim>\<open>Mower\<close>, \<^verbatim>\<open>Battery\<close>, \<^verbatim>\<open>Sensor\<close>, \<^verbatim>\<open>Compass\<close>,
  \<^verbatim>\<open>Display\<close>, \<^verbatim>\<open>Error\<close>, \<^verbatim>\<open>SetupAndDebug\<close>, \<^verbatim>\<open>Serial\<close>) whose bodies are not part of
  the sketch. The model therefore records every collaborator call, in program order, as an
  event of a trace, and takes every value a collaborator returns from an environment.
\<close>

subsection \<open>Data\<close>

text \<open>\<^verbatim>\<open>long\<close> and \<^verbatim>\<open>unsigned long\<close> are 32 bits wide on the boards the sketch targets.
  A timestamp is stored from \<^verbatim>\<open>millis()\<close> (unsigned) into a \<^verbatim>\<open>long\<close>, and every
  comparison \<^verbatim>\<open>millis() - t > c\<close> is evaluated in \<^verbatim>\<open>unsigned long\<close>, so a 32-bit word
  with wrapping subtraction and unsigned order is exact.\<close>

type_synonym ulong = "32 word"

text \<open>\<^verbatim>\<open>int\<close> is 16 bits wide on the AVR boards the sketch is written for. The only
  \<^verbatim>\<open>int\<close> the sketch computes with is the collision counter, by \<^verbatim>\<open>collisionCount++\<close>; the
  compiled increment wraps from \<^verbatim>\<open>INT_MAX\<close> to \<^verbatim>\<open>INT_MIN\<close>, which is the addition of a
  16-bit word read as two's complement (\<open>sint\<close>).\<close>

type_synonym cint = "16 word"

text \<open>Modelled from the spec: the state constants live in \<^verbatim>\<open>Definition.h\<close>, which is not
  among the sources. Section 3 of the specification lists the seven states; the case labels
  of the switch in \<^verbatim>\<open>loop()\<close> force them to be pairwise distinct.\<close>

datatype mstate = IDLE | MOWING | LAUNCHING | DOCKING | LOOKING_FOR_BWF | CHARGING | SETUP_DEBUG

text \<open>\<^verbatim>\<open>FULLSPEED\<close> and \<^verbatim>\<open>SLOWSPEED\<close> are macros of \<^verbatim>\<open>Definition.h\<close>; they are kept
  symbolic.\<close>

datatype speed = FULLSPEED | SLOWSPEED

text \<open>The argument of \<^verbatim>\<open>Error.flag\<close>: one of the two macros, or the integer a manoeuvre
  returned.\<close>

datatype errcode = ERROR_TILT | ERROR_LIFT | Err int

text \<open>Modelled from the spec: \<^verbatim>\<open>ORIENTATION::LEFT\<close> and \<^verbatim>\<open>ORIENTATION::RIGHT\<close> are declared
  in a header that is not among the sources. They index the two-element array
  \<^verbatim>\<open>sensorOutside\<close> and are compared with the loop index over coils 0 and 1.\<close>

definition LEFT :: nat where "LEFT = 0"
definition RIGHT :: nat where "RIGHT = 1"

text \<open>Collaborator calls that return a truth value.\<close>

datatype query =
    Sensor_isOutOfBounds
  | Sensor_isInside
  | Sensor_isOutside
  | Mower_hasFlipped
  | Mower_isLifted
  | Mower_wheelsAreOverloaded
  | Battery_mustCharge
  | Battery_isBeingCharged
  | Battery_isFullyCharged
  | Clock_timeToCut

text \<open>One event per collaborator call. A call that returns a value carries that value.\<close>

datatype event =
    CutterMotor_initialize
  | Serial_begin int
  | Serial_print string
  | Serial_println string
  | Serial_print_int int
  | Serial_println_int int
  | Serial_println_ulong ulong
  | Defaults_definePinsInputOutput
  | Defaults_setDefaultLevels
  | Display_initialize
  | Display_clear
  | Display_print string
  | Display_update
  | Battery_resetVoltage
  | Battery_updateVoltage
  | Compass_initialize
  | Compass_setNewTargetHeading
  | Compass_updateHeading
  | AttachInterrupt_updateBWF
  | Sensor_select nat
  | Delay nat
  | Mower_stopCutter
  | Mower_startCutter
  | Mower_stop
  | Mower_runBackward speed
  | Mower_runForward speed
  | Mower_turnRight int
  | Mower_turnLeft int
  | Mower_runForwardOverTime
  | Mower_turnIfObstacle
  | Mower_compensateSpeedToCutterLoad
  | Mower_compensateSpeedToCompassHeading
  | Mower_adjustMotorSpeeds
  | Mower_randomTurn bool
  | Error_flag errcode
  | Millis ulong
  | Random_call int int int
  | TryEnterSetupDebugMode mstate mstate
  | Ask query bool
  | Mower_GoBackwardUntilInside int
  | Mower_turnToReleaseRight int int
  | Mower_turnToReleaseLeft int int

text \<open>The environment answers the call made at position \<open>n\<close> of the run (the number of
  events before it). Any sequence of answers is some environment, so a statement for all
  environments covers every behaviour of the collaborators, the clock included.\<close>

record env =
  ans_bool :: "nat \<Rightarrow> bool"
  ans_int :: "nat \<Rightarrow> int"
  ans_time :: "nat \<Rightarrow> ulong"
  ans_state :: "nat \<Rightarrow> mstate"

text \<open>The preprocessor symbols the sketch tests, and the macros of \<^verbatim>\<open>Definition.h\<close> whose
  value it uses. \<open>RTC_CLOCK\<close> is \<^verbatim>\<open>__RTC_CLOCK__\<close>, under which the \<^verbatim>\<open>Clock\<close> object is
  declared; \<open>RTC__CLOCK\<close> is \<^verbatim>\<open>__RTC__CLOCK__\<close>, the spelling tested in \<^verbatim>\<open>doCharging\<close>.\<close>

record config =
  DEBUG_ENABLED :: bool
  MS9150 :: bool
  MS5883L :: bool
  ADXL345 :: bool
  Lift_Sensor :: bool
  RTC_CLOCK :: bool
  RTC__CLOCK :: bool
  TURN_INTERVAL :: ulong
  VERSION_STRING :: string
  DATE :: string
  TIME :: string

text \<open>The variables of the sketch: the globals \<^verbatim>\<open>state\<close>, \<^verbatim>\<open>time_at_turning\<close> and
  \<^verbatim>\<open>sensorOutside\<close>, the function-local statics of \<^verbatim>\<open>doDocking\<close>, \<^verbatim>\<open>doCharging\<close> and
  \<^verbatim>\<open>loop\<close>, and the trace of collaborator calls made so far. \<^verbatim>\<open>collisionCount\<close> is a
  C \<^verbatim>\<open>int\<close>.\<close>

record world =
  state :: mstate
  time_at_turning :: ulong
  sensorOutside :: "nat \<Rightarrow> bool"
  collisionCount :: cint
  lastCollision :: ulong
  lastAllOutsideCheck :: ulong
  lastOutside :: ulong
  lastContact :: ulong
  lastDisplayUpdate :: ulong
  trace :: "event list"

subsection \<open>Calling a collaborator\<close>

definition emit :: "event \<Rightarrow> world \<Rightarrow> world" where
  "emit e w = w\<lparr>trace := trace w @ [e]\<rparr>"

definition emits :: "event list \<Rightarrow> world \<Rightarrow> world" where
  "emits es w = w\<lparr>trace := trace w @ es\<rparr>"

definition ask :: "env \<Rightarrow> query \<Rightarrow> world \<Rightarrow> bool \<times> world" where
  "ask en q w = (let b = ans_bool en (length (trace w)) in (b, emit (Ask q b) w))"

definition millis :: "env \<Rightarrow> world \<Rightarrow> ulong \<times> world" where
  "millis en w = (let t = ans_time en (length (trace w)) in (t, emit (Millis t) w))"

definition random_call :: "env \<Rightarrow> int \<Rightarrow> int \<Rightarrow> world \<Rightarrow> int \<times> world" where
  "random_call en lo hi w =
     (let r = ans_int en (length (trace w)) in (r, emit (Random_call lo hi r) w))"

definition tryEnterSetupDebugMode :: "env \<Rightarrow> mstate \<Rightarrow> world \<Rightarrow> mstate \<times> world" where
  "tryEnterSetupDebugMode en s w =
     (let s' = ans_state en (length (trace w)) in (s', emit (TryEnterSetupDebugMode s s') w))"

definition GoBackwardUntilInside :: "env \<Rightarrow> world \<Rightarrow> int \<times> world" where
  "GoBackwardUntilInside en w =
     (let r = ans_int en (length (trace w)) in (r, emit (Mower_GoBackwardUntilInside r) w))"

definition turnToReleaseRight :: "env \<Rightarrow> int \<Rightarrow> world \<Rightarrow> int \<times> world" where
  "turnToReleaseRight en a w =
     (let r = ans_int en (length (trace w)) in (r, emit (Mower_turnToReleaseRight a r) w))"

definition turnToReleaseLeft :: "env \<Rightarrow> int \<Rightarrow> world \<Rightarrow> int \<times> world" where
  "turnToReleaseLeft en a w =
     (let r = ans_int en (length (trace w)) in (r, emit (Mower_turnToReleaseLeft a r) w))"

text \<open>The events a stretch of the program added to the trace.\<close>

definition new_events :: "world \<Rightarrow> world \<Rightarrow> event list" where
  "new_events w w' = drop (length (trace w)) (trace w')"

subsection \<open>\<^verbatim>\<open>setup()\<close>\<close>

text \<open>\<^verbatim>\<open>setup\<close> is a command of the proof language, hence the longer name. Without
  \<^verbatim>\<open>DEBUG_ENABLED\<close> the variable \<^verbatim>\<open>state\<close> keeps the value it has at boot.\<close>

definition setup_sketch :: "config \<Rightarrow> env \<Rightarrow> world \<Rightarrow> world" where
  "setup_sketch cfg en w0 =
     (let w = emit CutterMotor_initialize w0;
          w = emit (Serial_begin 115200) w;
          w = emit Defaults_definePinsInputOutput w;
          w = emit Defaults_setDefaultLevels w;
          w = emit Display_initialize w;
          w = emit Battery_resetVoltage w;
          w = emit Compass_initialize w;
          w = emit AttachInterrupt_updateBWF w;
          w = emit (Sensor_select LEFT) w;
          w = emit Display_clear w;
          w = emit (Display_print (''--- LIAM ---'' @ [CHR 0x0A])) w;
          w = emit (Display_print (VERSION_STRING cfg @ [CHR 0x0A])) w;
          w = emit (Display_print (DATE cfg @ '' '' @ TIME cfg @ [CHR 0x0A])) w;
          w = (if DEBUG_ENABLED cfg
               then emits [Serial_println ''----------------'',
                           Serial_println ''Send D to enter setup and debug mode''] w
               else w);
          w = emit (Delay 5000) w;
          w = (if DEBUG_ENABLED cfg
               then (let (s, w') = tryEnterSetupDebugMode en IDLE w in w'\<lparr>state := s\<rparr>)
               else w);
          w = emit Display_clear w
      in if state w \<noteq> SETUP_DEBUG
         then (let (c, w') = ask en Battery_isBeingCharged w
               in if c then emit Mower_stopCutter (w'\<lparr>state := CHARGING\<rparr>)
                  else w'\<lparr>state := MOWING\<rparr>)
         else w)"

subsection \<open>\<^verbatim>\<open>randomTurn\<close> and the safety checks\<close>

definition randomTurn :: "env \<Rightarrow> bool \<Rightarrow> world \<Rightarrow> world" where
  "randomTurn en goBack w0 =
     (let w = (if goBack then emits [Mower_runBackward FULLSPEED, Delay 2000] w0 else w0);
          (angle, w) = random_call en 90 160 w;
          (r, w) = random_call en 0 100 w;
          w = (if r mod 2 = 0 then emit (Mower_turnRight angle) w
               else emit (Mower_turnLeft angle) w);
          (t, w) = millis en w;
          w = w\<lparr>time_at_turning := t\<rparr>
      in emits [Compass_setNewTargetHeading, Mower_runForward FULLSPEED] w)"

text \<open>The body of \<^verbatim>\<open>checkIfFlipped\<close> is compiled only with a motion sensor, the body of
  \<^verbatim>\<open>checkIfLifted\<close> only with a lift sensor. \<^verbatim>\<open>Mower.randomTurn\<close> in the lift check is a
  method of the controller, not the function above.\<close>

definition checkIfFlipped :: "config \<Rightarrow> env \<Rightarrow> world \<Rightarrow> world" where
  "checkIfFlipped cfg en w0 =
     (if MS9150 cfg \<or> MS5883L cfg \<or> ADXL345 cfg
      then (let (f, w) = ask en Mower_hasFlipped w0
            in if f then emits [Serial_print ''Mower has flipped '', Mower_stopCutter,
                                Mower_stop, Error_flag ERROR_TILT] w
               else w)
      else w0)"

definition checkIfLifted :: "config \<Rightarrow> env \<Rightarrow> world \<Rightarrow> world" where
  "checkIfLifted cfg en w0 =
     (if Lift_Sensor cfg
      then (let (l, w) = ask en Mower_isLifted w0
            in if l
               then (let w = emits [Serial_println ''Mower is lifted'', Mower_stopCutter,
                                    Mower_stop, Mower_runBackward FULLSPEED, Delay 2000] w;
                         (l', w) = ask en Mower_isLifted w;
                         w = (if l' then emit (Error_flag ERROR_LIFT) w else w)
                     in emit (Mower_randomTurn False) w)
               else w)
      else w0)"

subsection \<open>\<^verbatim>\<open>doMowing\<close>\<close>

definition release_turn :: "env \<Rightarrow> nat \<Rightarrow> world \<Rightarrow> int \<times> world" where
  "release_turn en i w =
     (if i = LEFT then turnToReleaseRight en 30 w else turnToReleaseLeft en 30 w)"

text \<open>The body of the loop over the two coils (everything after \<^verbatim>\<open>continue\<close>).\<close>

definition mow_sensor :: "env \<Rightarrow> nat \<Rightarrow> world \<Rightarrow> world" where
  "mow_sensor en i w0 =
     (if \<not> sensorOutside w0 i then w0
      else
        (let w = emits [Serial_print ''Sensor '', Serial_print_int (int i),
                        Serial_println '' outside'', Sensor_select i, Mower_stop] w0;
             (err, w) = GoBackwardUntilInside en w;
             w = (if err \<noteq> 0 then emit (Error_flag (Err err)) w else w);
             (err, w) = release_turn en i w;
             w = (if err \<noteq> 0
                  then (let w = emits [Mower_runBackward FULLSPEED, Delay 1000, Mower_stop] w;
                            (err, w) = release_turn en i w
                        in if err \<noteq> 0 then emit (Error_flag (Err err)) w else w)
                  else w);
             (t, w) = millis en w;
             w = w\<lparr>time_at_turning := t\<rparr>
         in emit Compass_setNewTargetHeading w))"

text \<open>The statement \<^verbatim>\<open>if((millis() - time_at_turning) > TURN_INTERVAL) randomTurn(true);\<close>,
  which \<^verbatim>\<open>doMowing\<close> and \<^verbatim>\<open>doLookForBWF\<close> both contain.\<close>

definition regular_turn :: "config \<Rightarrow> env \<Rightarrow> world \<Rightarrow> world" where
  "regular_turn cfg en w0 =
     (let (t, w) = millis en w0
      in if t - time_at_turning w > TURN_INTERVAL cfg then randomTurn en True w else w)"

definition doMowing :: "config \<Rightarrow> env \<Rightarrow> world \<Rightarrow> world" where
  "doMowing cfg en w0 =
     (let (mc, w) = ask en Battery_mustCharge w0
      in if mc then w\<lparr>state := LOOKING_FOR_BWF\<rparr>
         else
           (let w = regular_turn cfg en w;
                w = fold (mow_sensor en) [0, 1] w
            in emits [Mower_turnIfObstacle, Mower_startCutter, Mower_runForwardOverTime,
                      Mower_compensateSpeedToCutterLoad, Compass_updateHeading,
                      Mower_compensateSpeedToCompassHeading] w))"

subsection \<open>\<^verbatim>\<open>doLaunching\<close>\<close>

definition doLaunching :: "env \<Rightarrow> world \<Rightarrow> world" where
  "doLaunching en w0 =
     (let w = emits [Mower_runBackward FULLSPEED, Delay 5000, Mower_stop] w0;
          w = randomTurn en False w;
          w = emit Battery_resetVoltage w
      in w\<lparr>state := MOWING\<rparr>)"

subsection \<open>\<^verbatim>\<open>doDocking\<close>\<close>

text \<open>The part of \<^verbatim>\<open>doDocking\<close> from the regular check of the right coil to the end; it is
  reached when no collision was found, and after a collision that is not the third.\<close>

definition docking_track :: "env \<Rightarrow> world \<Rightarrow> world" where
  "docking_track en w0 =
     (let (t, w) = millis en w0;
          w = (if t - lastAllOutsideCheck w > 500
               then (let w = (if sensorOutside w RIGHT
                              then emits [Mower_stop, Mower_runBackward FULLSPEED, Delay 700,
                                          Mower_stop, Mower_turnRight 20, Mower_stop,
                                          Mower_runForward FULLSPEED] w
                              else w);
                         (t', w) = millis en w
                     in w\<lparr>lastAllOutsideCheck := t'\<rparr>)
               else w);
          (t, w) = millis en w
      in if t - lastOutside w > 10000
         then (emits [Mower_stop, Mower_turnLeft 30] w)\<lparr>state := LOOKING_FOR_BWF\<rparr>
         else emits [Sensor_select LEFT, Mower_adjustMotorSpeeds] w)"

text \<open>The body of \<^verbatim>\<open>if(Mower.wheelsAreOverloaded())\<close>: the collision is counted, the
  charger is checked again after a second, the mower backs off, and the third collision
  turns away and returns.\<close>

definition docking_collision :: "env \<Rightarrow> world \<Rightarrow> world" where
  "docking_collision en w0 =
     (let (t, w) = millis en w0;
          w = (if t - lastCollision w > 10000 then w\<lparr>collisionCount := 0\<rparr> else w);
          w = w\<lparr>collisionCount := collisionCount w + 1\<rparr>;
          (t, w) = millis en w;
          w = w\<lparr>lastCollision := t\<rparr>;
          w = emits [Serial_print ''Collision while docking: '',
                     Serial_println_int (sint (collisionCount w)), Delay 1000] w;
          (c, w) = ask en Battery_isBeingCharged w
      in if c then (emit Mower_stop w)\<lparr>state := CHARGING\<rparr>
         else
           (let w = emits [Mower_runBackward FULLSPEED, Delay 1300] w
            in if collisionCount w = 3
               then
                 (let w = emits [Mower_turnRight 70, Mower_stop] w;
                      w = w\<lparr>collisionCount := 0\<rparr>;
                      (t, w) = millis en w;
                      w = w\<lparr>lastOutside := t\<rparr>
                  in emit (Mower_runForward FULLSPEED) w)
               else docking_track en w))"

definition doDocking :: "env \<Rightarrow> world \<Rightarrow> world" where
  "doDocking en w0 =
     (let w = emit Mower_stopCutter w0;
          w = (if sensorOutside w LEFT
               then (let (t, w') = millis en w in w'\<lparr>lastOutside := t\<rparr>)
               else w);
          (c, w) = ask en Battery_isBeingCharged w
      in if c then (emit Mower_stop w)\<lparr>state := CHARGING\<rparr>
         else
           (let (ov, w) = ask en Mower_wheelsAreOverloaded w
            in if ov then docking_collision en w else docking_track en w))"

subsection \<open>\<^verbatim>\<open>doLookForBWF\<close> and \<^verbatim>\<open>doCharging\<close>\<close>

definition doLookForBWF :: "config \<Rightarrow> env \<Rightarrow> world \<Rightarrow> world" where
  "doLookForBWF cfg en w0 =
     (let w = emit Mower_stopCutter w0
      in if sensorOutside w LEFT then w\<lparr>state := DOCKING\<rparr>
         else
           (let w = regular_turn cfg en w
            in emits [Mower_runForwardOverTime, Mower_turnIfObstacle] w))"

text \<open>\<^verbatim>\<open>doCharging\<close> in its three steps: the contact time is refreshed while the charger
  is felt; after more than twenty seconds without contact the mower nudges back and forth;
  a full battery launches the mower when a boundary signal is there.
  \<^verbatim>\<open>Clock.timeToCut()\<close> is compiled in under \<^verbatim>\<open>__RTC__CLOCK__\<close>; \<^verbatim>\<open>&&\<close> and \<^verbatim>\<open>||\<close>
  evaluate their right operand only when needed.\<close>

definition note_contact :: "env \<Rightarrow> world \<Rightarrow> world" where
  "note_contact en w0 =
     (let (c, w) = ask en Battery_isBeingCharged w0
      in if c then (let (t, w') = millis en w in w'\<lparr>lastContact := t\<rparr>) else w)"

definition redock_if_lost :: "env \<Rightarrow> world \<Rightarrow> world" where
  "redock_if_lost en w0 =
     (let (t, w) = millis en w0
      in if t - lastContact w > 20000
         then (let w = emits [Mower_runBackward SLOWSPEED, Delay 500,
                              Mower_runForward SLOWSPEED, Delay 2000, Mower_stop] w;
                   (t', w) = millis en w
               in w\<lparr>lastContact := t'\<rparr>)
         else w)"

definition launch_if_ready :: "config \<Rightarrow> env \<Rightarrow> world \<Rightarrow> world" where
  "launch_if_ready cfg en w0 =
     (let (full, w) = ask en Battery_isFullyCharged w0;
          (go, w) = (if full \<and> RTC__CLOCK cfg then ask en Clock_timeToCut w else (full, w))
      in if go
         then (let (inside, w) = ask en Sensor_isInside w
               in if inside then w\<lparr>state := LAUNCHING\<rparr>
                  else (let (outside, w) = ask en Sensor_isOutside w
                        in if outside then w\<lparr>state := LAUNCHING\<rparr> else w))
         else w)"

definition doCharging :: "config \<Rightarrow> env \<Rightarrow> world \<Rightarrow> world" where
  "doCharging cfg en w0 =
     (let w = emits [Mower_stop, Mower_stopCutter] w0;
          w = note_contact en w;
          w = redock_if_lost en w
      in launch_if_ready cfg en w)"

subsection \<open>\<^verbatim>\<open>loop()\<close>\<close>

text \<open>The first statement of \<^verbatim>\<open>loop\<close>: the debug collaborator is given the state and its
  answer is stored as the state.\<close>

definition enter_cycle :: "env \<Rightarrow> world \<Rightarrow> world" where
  "enter_cycle en w = (let (s, w') = tryEnterSetupDebugMode en (state w) w in w'\<lparr>state := s\<rparr>)"

definition poll_sensor :: "env \<Rightarrow> nat \<Rightarrow> world \<Rightarrow> world" where
  "poll_sensor en i w0 =
     (let w = emit (Sensor_select i) w0;
          (b, w) = ask en Sensor_isOutOfBounds w
      in w\<lparr>sensorOutside := (sensorOutside w)(i := b)\<rparr>)"

text \<open>The sensing part of the cycle: both coils are polled into \<^verbatim>\<open>sensorOutside\<close>, the
  battery voltage is updated, and the display is refreshed when five seconds have passed.\<close>

definition sense_cycle :: "env \<Rightarrow> world \<Rightarrow> world" where
  "sense_cycle en w0 =
     (let w = fold (poll_sensor en) [0, 1] w0;
          w = emit Battery_updateVoltage w;
          (t, w) = millis en w
      in if t - lastDisplayUpdate w > 5000
         then (let w = emit Display_update w;
                   (t', w) = millis en w
               in w\<lparr>lastDisplayUpdate := t'\<rparr>)
         else w)"

text \<open>The switch over the state; it has no case for \<^verbatim>\<open>SETUP_DEBUG\<close>.\<close>

definition dispatch :: "config \<Rightarrow> env \<Rightarrow> world \<Rightarrow> world" where
  "dispatch cfg en w =
     (case state w of
        IDLE \<Rightarrow> emit (Delay 100) w
      | MOWING \<Rightarrow> doMowing cfg en w
      | LAUNCHING \<Rightarrow> doLaunching en w
      | DOCKING \<Rightarrow> doDocking en w
      | LOOKING_FOR_BWF \<Rightarrow> doLookForBWF cfg en w
      | CHARGING \<Rightarrow> doCharging cfg en w
      | SETUP_DEBUG \<Rightarrow> w)"

definition loop :: "config \<Rightarrow> env \<Rightarrow> world \<Rightarrow> world" where
  "loop cfg en w0 =
     (let w = enter_cycle en w0
      in if state w = SETUP_DEBUG then w
         else
           (let (looptime, w) = millis en w;
                w = sense_cycle en w;
                w = checkIfFlipped cfg en w;
                w = checkIfLifted cfg en w;
                w = dispatch cfg en w;
                w = emit (Serial_print ([CHR 0x0A, CHR 0x0A] @ ''looptime : '')) w;
                (t, w) = millis en w
            in emit (Serial_println_ulong (t - looptime)) w))"

text \<open>The world in which the safety checks of a cycle start, and the world in which its
  switch is executed.\<close>

definition at_checks :: "env \<Rightarrow> world \<Rightarrow> world" where
  "at_checks en w = sense_cycle en (snd (millis en (enter_cycle en w)))"

definition at_dispatch :: "config \<Rightarrow> env \<Rightarrow> world \<Rightarrow> world" where
  "at_dispatch cfg en w = checkIfLifted cfg en (checkIfFlipped cfg en (at_checks en w))"

text \<open>Commands to the wheel motors and the cutter.\<close>

fun motor_command :: "event \<Rightarrow> bool" where
  "motor_command Mower_stopCutter = True"
| "motor_command Mower_startCutter = True"
| "motor_command Mower_stop = True"
| "motor_command (Mower_runBackward _) = True"
| "motor_command (Mower_runForward _) = True"
| "motor_command (Mower_turnRight _) = True"
| "motor_command (Mower_turnLeft _) = True"
| "motor_command Mower_runForwardOverTime = True"
| "motor_command Mower_turnIfObstacle = True"
| "motor_command Mower_compensateSpeedToCutterLoad = True"
| "motor_command Mower_compensateSpeedToCompassHeading = True"
| "motor_command Mower_adjustMotorSpeeds = True"
| "motor_command (Mower_randomTurn _) = True"
| "motor_command (Mower_GoBackwardUntilInside _) = True"
| "motor_command (Mower_turnToReleaseRight _ _) = True"
| "motor_command (Mower_turnToReleaseLeft _ _) = True"
| "motor_command CutterMotor_initialize = True"
| "motor_command _ = False"

text \<open>What the sensing part of a cycle may do: the call of the debug collaborator, clock
  readings, selecting and polling a coil, the battery update and the display update.\<close>

fun sensing_event :: "event \<Rightarrow> bool" where
  "sensing_event (TryEnterSetupDebugMode _ _) = True"
| "sensing_event (Millis _) = True"
| "sensing_event (Sensor_select _) = True"
| "sensing_event (Ask Sensor_isOutOfBounds _) = True"
| "sensing_event Battery_updateVoltage = True"
| "sensing_event Display_update = True"
| "sensing_event _ = False"

fun error_flag :: "event \<Rightarrow> bool" where
  "error_flag (Error_flag _) = True"
| "error_flag _ = False"

subsection \<open>Concrete configurations, environments and worlds\<close>

text \<open>A build with a motion sensor, a lift sensor and the clock object; a world right after
  boot in a given state; an environment that answers true at the listed positions of the
  run and false elsewhere, zero for every integer, the given time for every clock reading,
  and the state the given function names for the position.\<close>

definition cfg_full :: config where
  "cfg_full = \<lparr>DEBUG_ENABLED = True, MS9150 = True, MS5883L = False, ADXL345 = False,
      Lift_Sensor = True, RTC_CLOCK = True, RTC__CLOCK = False, TURN_INTERVAL = 15000,
      VERSION_STRING = ''5.1'', DATE = ''Jan  1 2020'', TIME = ''00:00:00''\<rparr>"

definition world0 :: "mstate \<Rightarrow> world" where
  "world0 s = \<lparr>state = s, time_at_turning = 0, sensorOutside = (\<lambda>_. False),
      collisionCount = 0, lastCollision = 0, lastAllOutsideCheck = 0, lastOutside = 0,
      lastContact = 0, lastDisplayUpdate = 0, trace = []\<rparr>"

definition env_script :: "nat list \<Rightarrow> ulong \<Rightarrow> (nat \<Rightarrow> mstate) \<Rightarrow> env" where
  "env_script yes t st =
     \<lparr>ans_bool = (\<lambda>n. n \<in> set yes), ans_int = (\<lambda>_. 0), ans_time = (\<lambda>_. t),
      ans_state = st\<rparr>"

section \<open>Properties\<close>

subsection \<open>The collaborator calls\<close>

lemmas prims = emit_def emits_def ask_def millis_def random_call_def tryEnterSetupDebugMode_def
  GoBackwardUntilInside_def turnToReleaseRight_def turnToReleaseLeft_def

lemmas concrete = cfg_full_def world0_def env_script_def

lemma new_events_self [simp]: "new_events w w = []"
  by (simp add: new_events_def)

lemma trace_ext: "prefix (trace w) (trace w') \<Longrightarrow> trace w' = trace w @ new_events w w'"
  by (auto simp: prefix_def new_events_def)

lemma trace_emit [simp]: "trace (emit e w) = trace w @ [e]"
  by (simp add: emit_def)

lemma trace_emits [simp]: "trace (emits es w) = trace w @ es"
  by (simp add: emits_def)

lemma frame_emit [simp]:
  "state (emit e w) = state w"
  "time_at_turning (emit e w) = time_at_turning w"
  "sensorOutside (emit e w) = sensorOutside w"
  "collisionCount (emit e w) = collisionCount w"
  "lastCollision (emit e w) = lastCollision w"
  "lastAllOutsideCheck (emit e w) = lastAllOutsideCheck w"
  "lastOutside (emit e w) = lastOutside w"
  "lastContact (emit e w) = lastContact w"
  "lastDisplayUpdate (emit e w) = lastDisplayUpdate w"
  by (simp_all add: emit_def)

lemma frame_emits [simp]:
  "state (emits es w) = state w"
  "time_at_turning (emits es w) = time_at_turning w"
  "sensorOutside (emits es w) = sensorOutside w"
  "collisionCount (emits es w) = collisionCount w"
  "lastCollision (emits es w) = lastCollision w"
  "lastAllOutsideCheck (emits es w) = lastAllOutsideCheck w"
  "lastOutside (emits es w) = lastOutside w"
  "lastContact (emits es w) = lastContact w"
  "lastDisplayUpdate (emits es w) = lastDisplayUpdate w"
  by (simp_all add: emits_def)

lemma trace_ask [simp]: "trace (snd (ask en q w)) = trace w @ [Ask q (fst (ask en q w))]"
  by (simp add: ask_def Let_def)

lemma frame_ask [simp]:
  "state (snd (ask en q w)) = state w"
  "time_at_turning (snd (ask en q w)) = time_at_turning w"
  "sensorOutside (snd (ask en q w)) = sensorOutside w"
  "collisionCount (snd (ask en q w)) = collisionCount w"
  "lastCollision (snd (ask en q w)) = lastCollision w"
  "lastAllOutsideCheck (snd (ask en q w)) = lastAllOutsideCheck w"
  "lastOutside (snd (ask en q w)) = lastOutside w"
  "lastContact (snd (ask en q w)) = lastContact w"
  "lastDisplayUpdate (snd (ask en q w)) = lastDisplayUpdate w"
  by (simp_all add: ask_def Let_def)

lemma trace_millis [simp]: "trace (snd (millis en w)) = trace w @ [Millis (fst (millis en w))]"
  by (simp add: millis_def Let_def)

lemma frame_millis [simp]:
  "state (snd (millis en w)) = state w"
  "time_at_turning (snd (millis en w)) = time_at_turning w"
  "sensorOutside (snd (millis en w)) = sensorOutside w"
  "collisionCount (snd (millis en w)) = collisionCount w"
  "lastCollision (snd (millis en w)) = lastCollision w"
  "lastAllOutsideCheck (snd (millis en w)) = lastAllOutsideCheck w"
  "lastOutside (snd (millis en w)) = lastOutside w"
  "lastContact (snd (millis en w)) = lastContact w"
  "lastDisplayUpdate (snd (millis en w)) = lastDisplayUpdate w"
  by (simp_all add: millis_def Let_def)

lemma trace_random_call [simp]: "trace (snd (random_call en lo hi w)) = trace w @ [Random_call lo hi (fst (random_call en lo hi w))]"
  by (simp add: random_call_def Let_def)

lemma frame_random_call [simp]:
  "state (snd (random_call en lo hi w)) = state w"
  "time_at_turning (snd (random_call en lo hi w)) = time_at_turning w"
  "sensorOutside (snd (random_call en lo hi w)) = sensorOutside w"
  "collisionCount (snd (random_call en lo hi w)) = collisionCount w"
  "lastCollision (snd (random_call en lo hi w)) = lastCollision w"
  "lastAllOutsideCheck (snd (random_call en lo hi w)) = lastAllOutsideCheck w"
  "lastOutside (snd (random_call en lo hi w)) = lastOutside w"
  "lastContact (snd (random_call en lo hi w)) = lastContact w"
  "lastDisplayUpdate (snd (random_call en lo hi w)) = lastDisplayUpdate w"
  by (simp_all add: random_call_def Let_def)

lemma trace_tryEnterSetupDebugMode [simp]: "trace (snd (tryEnterSetupDebugMode en s w)) = trace w @ [TryEnterSetupDebugMode s (fst (tryEnterSetupDebugMode en s w))]"
  by (simp add: tryEnterSetupDebugMode_def Let_def)

lemma frame_tryEnterSetupDebugMode [simp]:
  "state (snd (tryEnterSetupDebugMode en s w)) = state w"
  "time_at_turning (snd (tryEnterSetupDebugMode en s w)) = time_at_turning w"
  "sensorOutside (snd (tryEnterSetupDebugMode en s w)) = sensorOutside w"
  "collisionCount (snd (tryEnterSetupDebugMode en s w)) = collisionCount w"
  "lastCollision (snd (tryEnterSetupDebugMode en s w)) = lastCollision w"
  "lastAllOutsideCheck (snd (tryEnterSetupDebugMode en s w)) = lastAllOutsideCheck w"
  "lastOutside (snd (tryEnterSetupDebugMode en s w)) = lastOutside w"
  "lastContact (snd (tryEnterSetupDebugMode en s w)) = lastContact w"
  "lastDisplayUpdate (snd (tryEnterSetupDebugMode en s w)) = lastDisplayUpdate w"
  by (simp_all add: tryEnterSetupDebugMode_def Let_def)

lemma trace_GoBackwardUntilInside [simp]: "trace (snd (GoBackwardUntilInside en w)) = trace w @ [Mower_GoBackwardUntilInside (fst (GoBackwardUntilInside en w))]"
  by (simp add: GoBackwardUntilInside_def Let_def)

lemma frame_GoBackwardUntilInside [simp]:
  "state (snd (GoBackwardUntilInside en w)) = state w"
  "time_at_turning (snd (GoBackwardUntilInside en w)) = time_at_turning w"
  "sensorOutside (snd (GoBackwardUntilInside en w)) = sensorOutside w"
  "collisionCount (snd (GoBackwardUntilInside en w)) = collisionCount w"
  "lastCollision (snd (GoBackwardUntilInside en w)) = lastCollision w"
  "lastAllOutsideCheck (snd (GoBackwardUntilInside en w)) = lastAllOutsideCheck w"
  "lastOutside (snd (GoBackwardUntilInside en w)) = lastOutside w"
  "lastContact (snd (GoBackwardUntilInside en w)) = lastContact w"
  "lastDisplayUpdate (snd (GoBackwardUntilInside en w)) = lastDisplayUpdate w"
  by (simp_all add: GoBackwardUntilInside_def Let_def)

lemma trace_turnToReleaseRight [simp]: "trace (snd (turnToReleaseRight en a w)) = trace w @ [Mower_turnToReleaseRight a (fst (turnToReleaseRight en a w))]"
  by (simp add: turnToReleaseRight_def Let_def)

lemma frame_turnToReleaseRight [simp]:
  "state (snd (turnToReleaseRight en a w)) = state w"
  "time_at_turning (snd (turnToReleaseRight en a w)) = time_at_turning w"
  "sensorOutside (snd (turnToReleaseRight en a w)) = sensorOutside w"
  "collisionCount (snd (turnToReleaseRight en a w)) = collisionCount w"
  "lastCollision (snd (turnToReleaseRight en a w)) = lastCollision w"
  "lastAllOutsideCheck (snd (turnToReleaseRight en a w)) = lastAllOutsideCheck w"
  "lastOutside (snd (turnToReleaseRight en a w)) = lastOutside w"
  "lastContact (snd (turnToReleaseRight en a w)) = lastContact w"
  "lastDisplayUpdate (snd (turnToReleaseRight en a w)) = lastDisplayUpdate w"
  by (simp_all add: turnToReleaseRight_def Let_def)

lemma trace_turnToReleaseLeft [simp]: "trace (snd (turnToReleaseLeft en a w)) = trace w @ [Mower_turnToReleaseLeft a (fst (turnToReleaseLeft en a w))]"
  by (simp add: turnToReleaseLeft_def Let_def)

lemma frame_turnToReleaseLeft [simp]:
  "state (snd (turnToReleaseLeft en a w)) = state w"
  "time_at_turning (snd (turnToReleaseLeft en a w)) = time_at_turning w"
  "sensorOutside (snd (turnToReleaseLeft en a w)) = sensorOutside w"
  "collisionCount (snd (turnToReleaseLeft en a w)) = collisionCount w"
  "lastCollision (snd (turnToReleaseLeft en a w)) = lastCollision w"
  "lastAllOutsideCheck (snd (turnToReleaseLeft en a w)) = lastAllOutsideCheck w"
  "lastOutside (snd (turnToReleaseLeft en a w)) = lastOutside w"
  "lastContact (snd (turnToReleaseLeft en a w)) = lastContact w"
  "lastDisplayUpdate (snd (turnToReleaseLeft en a w)) = lastDisplayUpdate w"
  by (simp_all add: turnToReleaseLeft_def Let_def)

lemma trace_release_turn [simp]: "trace (snd (release_turn en i w)) = trace w @ new_events w (snd (release_turn en i w))"
  by (rule trace_ext) (simp add: release_turn_def)

lemma frame_release_turn [simp]:
  "state (snd (release_turn en i w)) = state w"
  "time_at_turning (snd (release_turn en i w)) = time_at_turning w"
  "sensorOutside (snd (release_turn en i w)) = sensorOutside w"
  "collisionCount (snd (release_turn en i w)) = collisionCount w"
  "lastCollision (snd (release_turn en i w)) = lastCollision w"
  "lastAllOutsideCheck (snd (release_turn en i w)) = lastAllOutsideCheck w"
  "lastOutside (snd (release_turn en i w)) = lastOutside w"
  "lastContact (snd (release_turn en i w)) = lastContact w"
  "lastDisplayUpdate (snd (release_turn en i w)) = lastDisplayUpdate w"
  by (simp_all add: release_turn_def)

subsection \<open>The parts of the program: what they append, what they leave alone\<close>

text \<open>
  Every part only appends to the trace. The rules below keep the collaborator calls
  folded, so the events of a part appear as \<open>new_events w (part w)\<close>; a proof that needs
  them spelled out unfolds \<open>new_events\<close> once, before simplifying.
\<close>

lemma trace_randomTurn [simp]: "trace (randomTurn en g w) = trace w @ new_events w (randomTurn en g w)"
  by (rule trace_ext) (simp add: randomTurn_def Let_def split_def)

lemma frame_randomTurn [simp]:
  "state (randomTurn en g w) = state w"
  "sensorOutside (randomTurn en g w) = sensorOutside w"
  "collisionCount (randomTurn en g w) = collisionCount w"
  "lastCollision (randomTurn en g w) = lastCollision w"
  "lastAllOutsideCheck (randomTurn en g w) = lastAllOutsideCheck w"
  "lastOutside (randomTurn en g w) = lastOutside w"
  "lastContact (randomTurn en g w) = lastContact w"
  "lastDisplayUpdate (randomTurn en g w) = lastDisplayUpdate w"
  by (simp_all add: randomTurn_def Let_def split_def)

lemma trace_regular_turn [simp]: "trace (regular_turn cfg en w) = trace w @ new_events w (regular_turn cfg en w)"
  by (rule trace_ext) (simp add: regular_turn_def Let_def split_def)

lemma frame_regular_turn [simp]:
  "state (regular_turn cfg en w) = state w"
  "sensorOutside (regular_turn cfg en w) = sensorOutside w"
  "collisionCount (regular_turn cfg en w) = collisionCount w"
  "lastCollision (regular_turn cfg en w) = lastCollision w"
  "lastAllOutsideCheck (regular_turn cfg en w) = lastAllOutsideCheck w"
  "lastOutside (regular_turn cfg en w) = lastOutside w"
  "lastContact (regular_turn cfg en w) = lastContact w"
  "lastDisplayUpdate (regular_turn cfg en w) = lastDisplayUpdate w"
  by (simp_all add: regular_turn_def Let_def split_def)

lemma trace_checkIfFlipped [simp]: "trace (checkIfFlipped cfg en w) = trace w @ new_events w (checkIfFlipped cfg en w)"
  by (rule trace_ext) (simp add: checkIfFlipped_def Let_def split_def)

lemma frame_checkIfFlipped [simp]:
  "state (checkIfFlipped cfg en w) = state w"
  "time_at_turning (checkIfFlipped cfg en w) = time_at_turning w"
  "sensorOutside (checkIfFlipped cfg en w) = sensorOutside w"
  "collisionCount (checkIfFlipped cfg en w) = collisionCount w"
  "lastCollision (checkIfFlipped cfg en w) = lastCollision w"
  "lastAllOutsideCheck (checkIfFlipped cfg en w) = lastAllOutsideCheck w"
  "lastOutside (checkIfFlipped cfg en w) = lastOutside w"
  "lastContact (checkIfFlipped cfg en w) = lastContact w"
  "lastDisplayUpdate (checkIfFlipped cfg en w) = lastDisplayUpdate w"
  by (simp_all add: checkIfFlipped_def Let_def split_def)

lemma trace_checkIfLifted [simp]: "trace (checkIfLifted cfg en w) = trace w @ new_events w (checkIfLifted cfg en w)"
  by (rule trace_ext) (simp add: checkIfLifted_def Let_def split_def)

lemma frame_checkIfLifted [simp]:
  "state (checkIfLifted cfg en w) = state w"
  "time_at_turning (checkIfLifted cfg en w) = time_at_turning w"
  "sensorOutside (checkIfLifted cfg en w) = sensorOutside w"
  "collisionCount (checkIfLifted cfg en w) = collisionCount w"
  "lastCollision (checkIfLifted cfg en w) = lastCollision w"
  "lastAllOutsideCheck (checkIfLifted cfg en w) = lastAllOutsideCheck w"
  "lastOutside (checkIfLifted cfg en w) = lastOutside w"
  "lastContact (checkIfLifted cfg en w) = lastContact w"
  "lastDisplayUpdate (checkIfLifted cfg en w) = lastDisplayUpdate w"
  by (simp_all add: checkIfLifted_def Let_def split_def)

lemma trace_mow_sensor [simp]: "trace (mow_sensor en i w) = trace w @ new_events w (mow_sensor en i w)"
  by (rule trace_ext) (simp add: mow_sensor_def Let_def split_def)

lemma frame_mow_sensor [simp]:
  "state (mow_sensor en i w) = state w"
  "sensorOutside (mow_sensor en i w) = sensorOutside w"
  "collisionCount (mow_sensor en i w) = collisionCount w"
  "lastCollision (mow_sensor en i w) = lastCollision w"
  "lastAllOutsideCheck (mow_sensor en i w) = lastAllOutsideCheck w"
  "lastOutside (mow_sensor en i w) = lastOutside w"
  "lastContact (mow_sensor en i w) = lastContact w"
  "lastDisplayUpdate (mow_sensor en i w) = lastDisplayUpdate w"
  by (simp_all add: mow_sensor_def Let_def split_def)

lemma trace_doMowing [simp]: "trace (doMowing cfg en w) = trace w @ new_events w (doMowing cfg en w)"
  by (rule trace_ext) (simp add: doMowing_def Let_def split_def)

lemma frame_doMowing [simp]:
  "sensorOutside (doMowing cfg en w) = sensorOutside w"
  "collisionCount (doMowing cfg en w) = collisionCount w"
  "lastCollision (doMowing cfg en w) = lastCollision w"
  "lastAllOutsideCheck (doMowing cfg en w) = lastAllOutsideCheck w"
  "lastOutside (doMowing cfg en w) = lastOutside w"
  "lastContact (doMowing cfg en w) = lastContact w"
  "lastDisplayUpdate (doMowing cfg en w) = lastDisplayUpdate w"
  by (simp_all add: doMowing_def Let_def split_def)

lemma trace_doLaunching [simp]: "trace (doLaunching en w) = trace w @ new_events w (doLaunching en w)"
  by (rule trace_ext) (simp add: doLaunching_def Let_def split_def)

lemma frame_doLaunching [simp]:
  "sensorOutside (doLaunching en w) = sensorOutside w"
  "collisionCount (doLaunching en w) = collisionCount w"
  "lastCollision (doLaunching en w) = lastCollision w"
  "lastAllOutsideCheck (doLaunching en w) = lastAllOutsideCheck w"
  "lastOutside (doLaunching en w) = lastOutside w"
  "lastContact (doLaunching en w) = lastContact w"
  "lastDisplayUpdate (doLaunching en w) = lastDisplayUpdate w"
  by (simp_all add: doLaunching_def Let_def split_def)

lemma trace_docking_track [simp]: "trace (docking_track en w) = trace w @ new_events w (docking_track en w)"
  by (rule trace_ext) (simp add: docking_track_def Let_def split_def)

lemma frame_docking_track [simp]:
  "time_at_turning (docking_track en w) = time_at_turning w"
  "sensorOutside (docking_track en w) = sensorOutside w"
  "collisionCount (docking_track en w) = collisionCount w"
  "lastCollision (docking_track en w) = lastCollision w"
  "lastOutside (docking_track en w) = lastOutside w"
  "lastContact (docking_track en w) = lastContact w"
  "lastDisplayUpdate (docking_track en w) = lastDisplayUpdate w"
  by (simp_all add: docking_track_def Let_def split_def)

lemma trace_docking_collision [simp]: "trace (docking_collision en w) = trace w @ new_events w (docking_collision en w)"
  by (rule trace_ext) (simp add: docking_collision_def Let_def split_def)

lemma frame_docking_collision [simp]:
  "time_at_turning (docking_collision en w) = time_at_turning w"
  "sensorOutside (docking_collision en w) = sensorOutside w"
  "lastContact (docking_collision en w) = lastContact w"
  "lastDisplayUpdate (docking_collision en w) = lastDisplayUpdate w"
  by (simp_all add: docking_collision_def Let_def split_def)

lemma trace_doDocking [simp]: "trace (doDocking en w) = trace w @ new_events w (doDocking en w)"
  by (rule trace_ext) (simp add: doDocking_def Let_def split_def)

lemma frame_doDocking [simp]:
  "time_at_turning (doDocking en w) = time_at_turning w"
  "sensorOutside (doDocking en w) = sensorOutside w"
  "lastContact (doDocking en w) = lastContact w"
  "lastDisplayUpdate (doDocking en w) = lastDisplayUpdate w"
  by (simp_all add: doDocking_def Let_def split_def)

lemma trace_doLookForBWF [simp]: "trace (doLookForBWF cfg en w) = trace w @ new_events w (doLookForBWF cfg en w)"
  by (rule trace_ext) (simp add: doLookForBWF_def Let_def split_def)

lemma frame_doLookForBWF [simp]:
  "sensorOutside (doLookForBWF cfg en w) = sensorOutside w"
  "collisionCount (doLookForBWF cfg en w) = collisionCount w"
  "lastCollision (doLookForBWF cfg en w) = lastCollision w"
  "lastAllOutsideCheck (doLookForBWF cfg en w) = lastAllOutsideCheck w"
  "lastOutside (doLookForBWF cfg en w) = lastOutside w"
  "lastContact (doLookForBWF cfg en w) = lastContact w"
  "lastDisplayUpdate (doLookForBWF cfg en w) = lastDisplayUpdate w"
  by (simp_all add: doLookForBWF_def Let_def split_def)

lemma trace_note_contact [simp]: "trace (note_contact en w) = trace w @ new_events w (note_contact en w)"
  by (rule trace_ext) (simp add: note_contact_def Let_def split_def)

lemma frame_note_contact [simp]:
  "state (note_contact en w) = state w"
  "time_at_turning (note_contact en w) = time_at_turning w"
  "sensorOutside (note_contact en w) = sensorOutside w"
  "collisionCount (note_contact en w) = collisionCount w"
  "lastCollision (note_contact en w) = lastCollision w"
  "lastAllOutsideCheck (note_contact en w) = lastAllOutsideCheck w"
  "lastOutside (note_contact en w) = lastOutside w"
  "lastDisplayUpdate (note_contact en w) = lastDisplayUpdate w"
  by (simp_all add: note_contact_def Let_def split_def)

lemma trace_redock_if_lost [simp]: "trace (redock_if_lost en w) = trace w @ new_events w (redock_if_lost en w)"
  by (rule trace_ext) (simp add: redock_if_lost_def Let_def split_def)

lemma frame_redock_if_lost [simp]:
  "state (redock_if_lost en w) = state w"
  "time_at_turning (redock_if_lost en w) = time_at_turning w"
  "sensorOutside (redock_if_lost en w) = sensorOutside w"
  "collisionCount (redock_if_lost en w) = collisionCount w"
  "lastCollision (redock_if_lost en w) = lastCollision w"
  "lastAllOutsideCheck (redock_if_lost en w) = lastAllOutsideCheck w"
  "lastOutside (redock_if_lost en w) = lastOutside w"
  "lastDisplayUpdate (redock_if_lost en w) = lastDisplayUpdate w"
  by (simp_all add: redock_if_lost_def Let_def split_def)

lemma trace_launch_if_ready [simp]: "trace (launch_if_ready cfg en w) = trace w @ new_events w (launch_if_ready cfg en w)"
  by (rule trace_ext) (simp add: launch_if_ready_def Let_def split_def)

lemma frame_launch_if_ready [simp]:
  "time_at_turning (launch_if_ready cfg en w) = time_at_turning w"
  "sensorOutside (launch_if_ready cfg en w) = sensorOutside w"
  "collisionCount (launch_if_ready cfg en w) = collisionCount w"
  "lastCollision (launch_if_ready cfg en w) = lastCollision w"
  "lastAllOutsideCheck (launch_if_ready cfg en w) = lastAllOutsideCheck w"
  "lastOutside (launch_if_ready cfg en w) = lastOutside w"
  "lastContact (launch_if_ready cfg en w) = lastContact w"
  "lastDisplayUpdate (launch_if_ready cfg en w) = lastDisplayUpdate w"
  by (simp_all add: launch_if_ready_def Let_def split_def)

lemma trace_doCharging [simp]: "trace (doCharging cfg en w) = trace w @ new_events w (doCharging cfg en w)"
  by (rule trace_ext) (simp add: doCharging_def Let_def split_def)

lemma frame_doCharging [simp]:
  "time_at_turning (doCharging cfg en w) = time_at_turning w"
  "sensorOutside (doCharging cfg en w) = sensorOutside w"
  "collisionCount (doCharging cfg en w) = collisionCount w"
  "lastCollision (doCharging cfg en w) = lastCollision w"
  "lastAllOutsideCheck (doCharging cfg en w) = lastAllOutsideCheck w"
  "lastOutside (doCharging cfg en w) = lastOutside w"
  "lastDisplayUpdate (doCharging cfg en w) = lastDisplayUpdate w"
  by (simp_all add: doCharging_def Let_def split_def)

lemma trace_enter_cycle [simp]: "trace (enter_cycle en w) = trace w @ new_events w (enter_cycle en w)"
  by (rule trace_ext) (simp add: enter_cycle_def Let_def split_def)

lemma frame_enter_cycle [simp]:
  "time_at_turning (enter_cycle en w) = time_at_turning w"
  "sensorOutside (enter_cycle en w) = sensorOutside w"
  "collisionCount (enter_cycle en w) = collisionCount w"
  "lastCollision (enter_cycle en w) = lastCollision w"
  "lastAllOutsideCheck (enter_cycle en w) = lastAllOutsideCheck w"
  "lastOutside (enter_cycle en w) = lastOutside w"
  "lastContact (enter_cycle en w) = lastContact w"
  "lastDisplayUpdate (enter_cycle en w) = lastDisplayUpdate w"
  by (simp_all add: enter_cycle_def Let_def split_def)

lemma trace_poll_sensor [simp]: "trace (poll_sensor en i w) = trace w @ new_events w (poll_sensor en i w)"
  by (rule trace_ext) (simp add: poll_sensor_def Let_def split_def)

lemma frame_poll_sensor [simp]:
  "state (poll_sensor en i w) = state w"
  "time_at_turning (poll_sensor en i w) = time_at_turning w"
  "collisionCount (poll_sensor en i w) = collisionCount w"
  "lastCollision (poll_sensor en i w) = lastCollision w"
  "lastAllOutsideCheck (poll_sensor en i w) = lastAllOutsideCheck w"
  "lastOutside (poll_sensor en i w) = lastOutside w"
  "lastContact (poll_sensor en i w) = lastContact w"
  "lastDisplayUpdate (poll_sensor en i w) = lastDisplayUpdate w"
  by (simp_all add: poll_sensor_def Let_def split_def)

lemma trace_sense_cycle [simp]: "trace (sense_cycle en w) = trace w @ new_events w (sense_cycle en w)"
  by (rule trace_ext) (simp add: sense_cycle_def Let_def split_def)

lemma frame_sense_cycle [simp]:
  "state (sense_cycle en w) = state w"
  "time_at_turning (sense_cycle en w) = time_at_turning w"
  "collisionCount (sense_cycle en w) = collisionCount w"
  "lastCollision (sense_cycle en w) = lastCollision w"
  "lastAllOutsideCheck (sense_cycle en w) = lastAllOutsideCheck w"
  "lastOutside (sense_cycle en w) = lastOutside w"
  "lastContact (sense_cycle en w) = lastContact w"
  by (simp_all add: sense_cycle_def Let_def split_def)

lemma trace_at_checks [simp]: "trace (at_checks en w) = trace w @ new_events w (at_checks en w)"
  by (rule trace_ext) (simp add: at_checks_def Let_def split_def)

lemma frame_at_checks [simp]:
  "time_at_turning (at_checks en w) = time_at_turning w"
  "collisionCount (at_checks en w) = collisionCount w"
  "lastCollision (at_checks en w) = lastCollision w"
  "lastAllOutsideCheck (at_checks en w) = lastAllOutsideCheck w"
  "lastOutside (at_checks en w) = lastOutside w"
  "lastContact (at_checks en w) = lastContact w"
  by (simp_all add: at_checks_def Let_def split_def)

lemma trace_at_dispatch [simp]: "trace (at_dispatch cfg en w) = trace w @ new_events w (at_dispatch cfg en w)"
  by (rule trace_ext) (simp add: at_dispatch_def Let_def split_def)

lemma frame_at_dispatch [simp]:
  "time_at_turning (at_dispatch cfg en w) = time_at_turning w"
  "collisionCount (at_dispatch cfg en w) = collisionCount w"
  "lastCollision (at_dispatch cfg en w) = lastCollision w"
  "lastAllOutsideCheck (at_dispatch cfg en w) = lastAllOutsideCheck w"
  "lastOutside (at_dispatch cfg en w) = lastOutside w"
  "lastContact (at_dispatch cfg en w) = lastContact w"
  by (simp_all add: at_dispatch_def Let_def split_def)

lemma trace_dispatch [simp]: "trace (dispatch cfg en w) = trace w @ new_events w (dispatch cfg en w)"
  by (rule trace_ext) (simp add: dispatch_def split: mstate.split)

lemma trace_loop [simp]: "trace (loop cfg en w) = trace w @ new_events w (loop cfg en w)"
  by (rule trace_ext) (simp add: loop_def Let_def split_def)

lemma state_enter_cycle [simp]: "state (enter_cycle en w) = fst (tryEnterSetupDebugMode en (state w) w)"
  by (simp add: enter_cycle_def split_def Let_def)

lemma state_at_dispatch [simp]: "state (at_dispatch cfg en w) = state (enter_cycle en w)"
  by (simp add: at_dispatch_def at_checks_def)

subsection \<open>The cycle around the switch\<close>

lemma loop_after_dispatch:
  assumes "state (enter_cycle en w) \<noteq> SETUP_DEBUG"
  shows "loop cfg en w =
     (let W = emit (Serial_print ([CHR 0x0A, CHR 0x0A] @ ''looptime : ''))
                (dispatch cfg en (at_dispatch cfg en w))
      in emit (Serial_println_ulong (fst (millis en W) - fst (millis en (enter_cycle en w))))
           (snd (millis en W)))"
  using assms by (simp add: loop_def at_dispatch_def at_checks_def Let_def split_def)

lemma loop_setup_debug:
  assumes "state (enter_cycle en w) = SETUP_DEBUG"
  shows "loop cfg en w = enter_cycle en w"
  using assms by (simp add: loop_def Let_def del: state_enter_cycle)

lemma fields_loop:
  assumes "state (enter_cycle en w) \<noteq> SETUP_DEBUG"
  shows "state (loop cfg en w) = state (dispatch cfg en (at_dispatch cfg en w))"
    "collisionCount (loop cfg en w) = collisionCount (dispatch cfg en (at_dispatch cfg en w))"
    "lastOutside (loop cfg en w) = lastOutside (dispatch cfg en (at_dispatch cfg en w))"
    "lastCollision (loop cfg en w) = lastCollision (dispatch cfg en (at_dispatch cfg en w))"
    "lastAllOutsideCheck (loop cfg en w) = lastAllOutsideCheck (dispatch cfg en (at_dispatch cfg en w))"
    "lastContact (loop cfg en w) = lastContact (dispatch cfg en (at_dispatch cfg en w))"
    "time_at_turning (loop cfg en w) = time_at_turning (dispatch cfg en (at_dispatch cfg en w))"
  by (simp_all add: loop_after_dispatch [OF assms] Let_def)

lemma loop_report:
  assumes "state (enter_cycle en w) \<noteq> SETUP_DEBUG"
  shows "\<exists>t t0. new_events (dispatch cfg en (at_dispatch cfg en w)) (loop cfg en w) =
           [Serial_print ([CHR 0x0A, CHR 0x0A] @ ''looptime : ''), Millis t,
            Serial_println_ulong (t - t0)]"
  unfolding new_events_def
  by (simp add: loop_after_dispatch [OF assms] Let_def del: trace_at_dispatch trace_dispatch)

lemma loop_report_no_motor:
  assumes "state (enter_cycle en w) \<noteq> SETUP_DEBUG"
  shows "list_all (\<lambda>e. \<not> motor_command e)
           (new_events (dispatch cfg en (at_dispatch cfg en w)) (loop cfg en w))"
  using loop_report [OF assms, of cfg] by auto

lemma at_checks_no_motor:
  "list_all (\<lambda>e. sensing_event e \<and> \<not> motor_command e \<and> \<not> error_flag e)
     (new_events w (at_checks en w))"
  unfolding new_events_def
  by (simp add: at_checks_def sense_cycle_def enter_cycle_def poll_sensor_def Let_def split_def)

text \<open>The two safety checks, call by call.\<close>

lemma events_checkIfFlipped:
  "new_events w (checkIfFlipped cfg en w) =
     (if MS9150 cfg \<or> MS5883L cfg \<or> ADXL345 cfg
      then if fst (ask en Mower_hasFlipped w)
           then [Ask Mower_hasFlipped True, Serial_print ''Mower has flipped '',
                 Mower_stopCutter, Mower_stop, Error_flag ERROR_TILT]
           else [Ask Mower_hasFlipped False]
      else [])"
  unfolding new_events_def by (simp add: checkIfFlipped_def Let_def split_def)

lemma events_checkIfLifted:
  "new_events w (checkIfLifted cfg en w) =
     (if Lift_Sensor cfg
      then if fst (ask en Mower_isLifted w)
           then (let again = fst (ask en Mower_isLifted
                       (emits [Serial_println ''Mower is lifted'', Mower_stopCutter, Mower_stop,
                               Mower_runBackward FULLSPEED, Delay 2000]
                          (snd (ask en Mower_isLifted w))))
                 in [Ask Mower_isLifted True, Serial_println ''Mower is lifted'',
                     Mower_stopCutter, Mower_stop, Mower_runBackward FULLSPEED, Delay 2000,
                     Ask Mower_isLifted again]
                    @ (if again then [Error_flag ERROR_LIFT] else [])
                    @ [Mower_randomTurn False])
           else [Ask Mower_isLifted False]
      else [])"
  unfolding new_events_def by (simp add: checkIfLifted_def Let_def split_def)

text \<open>The snapshot the handlers read is what the two polls of the cycle answered.\<close>

lemma snapshot_is_poll:
  "\<exists>s t. take 6 (new_events w (at_checks en w)) =
     [TryEnterSetupDebugMode (state w) s, Millis t,
      Sensor_select 0, Ask Sensor_isOutOfBounds (sensorOutside (at_dispatch cfg en w) 0),
      Sensor_select 1, Ask Sensor_isOutOfBounds (sensorOutside (at_dispatch cfg en w) 1)]"
  unfolding new_events_def
  by (simp add: at_dispatch_def at_checks_def sense_cycle_def poll_sensor_def enter_cycle_def
        Let_def split_def)

subsection \<open>The handlers, branch by branch\<close>

lemma events_doLookForBWF:
  "\<exists>rest. new_events w (doLookForBWF cfg en w) = Mower_stopCutter # rest"
  unfolding new_events_def by (simp add: doLookForBWF_def Let_def)

lemma state_doMowing:
  "state (doMowing cfg en w) = (if fst (ask en Battery_mustCharge w) then LOOKING_FOR_BWF else state w)"
  by (simp add: doMowing_def Let_def split_def)

lemma turn_timer_doMowing:
  "fst (ask en Battery_mustCharge w) \<Longrightarrow> time_at_turning (doMowing cfg en w) = time_at_turning w"
  by (simp add: doMowing_def Let_def split_def)

lemma state_doLookForBWF:
  "state (doLookForBWF cfg en w) = (if sensorOutside w LEFT then DOCKING else state w)"
  by (simp add: doLookForBWF_def Let_def split_def)

lemma turn_timer_doLookForBWF:
  "sensorOutside w LEFT \<Longrightarrow> time_at_turning (doLookForBWF cfg en w) = time_at_turning w"
  by (simp add: doLookForBWF_def Let_def split_def)

lemma docking_track_no_ask:
  "Ask q b \<notin> set (new_events w (docking_track en w))"
  unfolding new_events_def by (simp add: docking_track_def Let_def split_def)

lemma docking_track_no_escape:
  "Mower_turnRight 70 \<notin> set (new_events w (docking_track en w))"
  unfolding new_events_def by (simp add: docking_track_def Let_def split_def)

lemma docking_collision_charged:
  assumes "Ask Battery_isBeingCharged True \<in> set (new_events w (docking_collision en w))"
  shows "state (docking_collision en w) = CHARGING
       \<and> suffix [Ask Battery_isBeingCharged True, Mower_stop]
             (new_events w (docking_collision en w))"
  using assms docking_track_no_ask [of Battery_isBeingCharged True]
  unfolding new_events_def
  by (auto simp add: docking_collision_def Let_def split_def suffix_Cons suffix_appendI split: if_splits)

lemma doDocking_charged:
  assumes "Ask Battery_isBeingCharged True \<in> set (new_events w (doDocking en w))"
  shows "state (doDocking en w) = CHARGING
       \<and> suffix [Ask Battery_isBeingCharged True, Mower_stop] (new_events w (doDocking en w))"
  using assms docking_track_no_ask [of Battery_isBeingCharged True]
    docking_collision_charged
  unfolding new_events_def
  by (auto simp add: doDocking_def Let_def split_def suffix_Cons suffix_appendI split: if_splits)

lemma docking_collision_escape:
  assumes "Mower_turnRight 70 \<in> set (new_events w (docking_collision en w))"
  shows "state (docking_collision en w) = state w \<and> collisionCount (docking_collision en w) = 0
       \<and> suffix [Mower_turnRight 70, Mower_stop, Millis (lastOutside (docking_collision en w)),
                  Mower_runForward FULLSPEED] (new_events w (docking_collision en w))"
  using assms docking_track_no_escape
  unfolding new_events_def
  by (auto simp add: docking_collision_def Let_def split_def suffix_Cons suffix_appendI split: if_splits)

lemma doDocking_escape:
  assumes "Mower_turnRight 70 \<in> set (new_events w (doDocking en w))"
  shows "state (doDocking en w) = state w \<and> collisionCount (doDocking en w) = 0
       \<and> suffix [Mower_turnRight 70, Mower_stop, Millis (lastOutside (doDocking en w)),
                  Mower_runForward FULLSPEED] (new_events w (doDocking en w))"
  using assms docking_track_no_escape docking_collision_escape
  unfolding new_events_def
  by (auto simp add: doDocking_def Let_def split_def suffix_Cons suffix_appendI split: if_splits)

lemma doDocking_overloaded:
  assumes "Ask Mower_wheelsAreOverloaded True \<in> set (new_events w (doDocking en w))"
  shows "\<exists>W. doDocking en w = docking_collision en W
           \<and> collisionCount W = collisionCount w \<and> lastCollision W = lastCollision w
           \<and> state W = state w"
proof -
  let ?W1 = "if sensorOutside w LEFT
             then (snd (millis en (emit Mower_stopCutter w)))
                    \<lparr>lastOutside := fst (millis en (emit Mower_stopCutter w))\<rparr>
             else emit Mower_stopCutter w"
  let ?W2 = "snd (ask en Battery_isBeingCharged ?W1)"
  let ?W = "snd (ask en Mower_wheelsAreOverloaded ?W2)"
  have "doDocking en w = docking_collision en ?W"
    using assms docking_track_no_ask [of Mower_wheelsAreOverloaded True]
    unfolding new_events_def
    by (auto simp add: doDocking_def Let_def split_def split: if_splits)
  moreover have "collisionCount ?W = collisionCount w" "lastCollision ?W = lastCollision w"
    "state ?W = state w"
    by simp_all
  ultimately show ?thesis by blast
qed

lemma docking_collision_outcome:
  "(let gap = fst (millis en W) - lastCollision W;
        c = (if gap > 10000 then 1 else collisionCount W + 1);
        evs = new_events W (docking_collision en W);
        charged = (Ask Battery_isBeingCharged True \<in> set evs);
        w' = docking_collision en W
    in take 5 evs = [Millis (fst (millis en W)), Millis (lastCollision w'),
                     Serial_print ''Collision while docking: '', Serial_println_int (sint c),
                     Delay 1000]
     \<and> (Mower_turnRight 70 \<in> set evs \<longleftrightarrow> c = 3 \<and> \<not> charged)
     \<and> (charged \<longrightarrow> state w' = CHARGING
            \<and> suffix [Ask Battery_isBeingCharged True, Mower_stop] evs)
     \<and> (\<not> charged \<and> c = 3 \<longrightarrow>
            collisionCount w' = 0 \<and> state w' = state W
          \<and> suffix [Mower_runBackward FULLSPEED, Delay 1300, Mower_turnRight 70, Mower_stop,
                     Millis (lastOutside w'), Mower_runForward FULLSPEED] evs)
     \<and> (\<not> charged \<and> (c = 1 \<or> c = 2) \<longrightarrow>
            collisionCount w' = c
          \<and> take 3 (drop 5 evs) = [Ask Battery_isBeingCharged False,
                                     Mower_runBackward FULLSPEED, Delay 1300]
          \<and> Mower_turnRight 70 \<notin> set evs))"
  using docking_track_no_ask [of Battery_isBeingCharged True] docking_track_no_escape
  unfolding new_events_def Let_def
  by (auto simp add: docking_collision_def Let_def split_def suffix_Cons suffix_appendI)

text \<open>The steps of \<^verbatim>\<open>doCharging\<close>: both stop commands come first; the nudge is made
  exactly when more than 20000 ms have passed since the last contact; the state changes only
  to Launching, only with a full battery and a boundary signal, and the clock is asked only
  under \<^verbatim>\<open>__RTC__CLOCK__\<close>.\<close>

lemma doCharging_stops_first:
  "\<exists>rest. new_events w (doCharging cfg en w) = Mower_stop # Mower_stopCutter # rest"
  unfolding new_events_def by (simp add: doCharging_def Let_def)

lemma redock_if_lost_nudge:
  "new_events w (redock_if_lost en w) =
     (if fst (millis en w) - lastContact w > 20000
      then [Millis (fst (millis en w)), Mower_runBackward SLOWSPEED, Delay 500,
            Mower_runForward SLOWSPEED, Delay 2000, Mower_stop,
            Millis (lastContact (redock_if_lost en w))]
      else [Millis (fst (millis en w))])"
  unfolding new_events_def by (simp add: redock_if_lost_def Let_def split_def)

lemma launch_if_ready_needs:
  assumes "state (launch_if_ready cfg en w) \<noteq> state w"
  shows "state (launch_if_ready cfg en w) = LAUNCHING
       \<and> Ask Battery_isFullyCharged True \<in> set (new_events w (launch_if_ready cfg en w))
       \<and> (Ask Sensor_isInside True \<in> set (new_events w (launch_if_ready cfg en w))
          \<or> Ask Sensor_isOutside True \<in> set (new_events w (launch_if_ready cfg en w)))
       \<and> (RTC__CLOCK cfg \<longrightarrow>
            Ask Clock_timeToCut True \<in> set (new_events w (launch_if_ready cfg en w)))"
  using assms unfolding new_events_def
  by (auto simp add: launch_if_ready_def Let_def split_def split: if_splits)

lemma launch_if_ready_no_clock:
  "\<not> RTC__CLOCK cfg \<Longrightarrow> Ask Clock_timeToCut b \<notin> set (new_events w (launch_if_ready cfg en w))"
  unfolding new_events_def
  by (auto simp add: launch_if_ready_def Let_def split_def split: if_splits)

subsection \<open>Running the program on concrete inputs\<close>

lemmas run_cycle = at_dispatch_def at_checks_def sense_cycle_def poll_sensor_def enter_cycle_def
  checkIfFlipped_def checkIfLifted_def dispatch_def loop_def prims Let_def split_def LEFT_def RIGHT_def
  new_events_def

lemmas run_docking = doDocking_def docking_collision_def docking_track_def

lemmas run_mowing = doMowing_def regular_turn_def randomTurn_def mow_sensor_def release_turn_def

section \<open>The claims\<close>

subsection \<open>C1: the safety checks come before the state handler\<close>

text \<open>
  Claim C1, as amended. In every cycle that reaches the switch (the debug collaborator did
  not answer \<^verbatim>\<open>SETUP_DEBUG\<close>), the trace of the cycle is, in this order: the sensing part, the
  tilt check, the lift check, the state handler, the loop-time report. The sensing part
  consists of the call of the debug collaborator, clock readings, the selection and poll of
  the two coils, the battery update and a due display update; it issues no motor or cutter
  command and flags no error. The tilt check is compiled in with a motion sensor
  (\<^verbatim>\<open>__MS9150__\<close>, \<^verbatim>\<open>__MS5883L__\<close> or \<^verbatim>\<open>__ADXL345__\<close>); then it asks
  \<^verbatim>\<open>Mower.hasFlipped()\<close> in every such cycle, and on the answer true it does exactly: log the
  message, stop the cutter, stop the wheel motors, flag \<^verbatim>\<open>ERROR_TILT\<close>; on the answer false
  it does nothing more. These stop commands are the first motor commands and the flag is
  the first error flag of the cycle. The lift check is compiled in with a lift sensor; then
  it asks \<^verbatim>\<open>Mower.isLifted()\<close> in every such cycle, and on the answer true it stops the cutter
  and the motors, backs off for two seconds, asks again, flags \<^verbatim>\<open>ERROR_LIFT\<close> if still lifted,
  and makes a random turn. Without the sensor a check does nothing.
\<close>

theorem safety_checks_before_dispatch:
  assumes "state (enter_cycle en w) \<noteq> SETUP_DEBUG"
  shows "(let c = at_checks en w; f = checkIfFlipped cfg en c; d = at_dispatch cfg en w;
              h = dispatch cfg en d; l = loop cfg en w;
              again = fst (ask en Mower_isLifted
                        (emits [Serial_println ''Mower is lifted'', Mower_stopCutter, Mower_stop,
                                Mower_runBackward FULLSPEED, Delay 2000]
                           (snd (ask en Mower_isLifted f))))
          in trace l = trace w @ new_events w c @ new_events c f @ new_events f d
                         @ new_events d h @ new_events h l
           \<and> d = checkIfLifted cfg en f
           \<and> list_all (\<lambda>e. sensing_event e \<and> \<not> motor_command e \<and> \<not> error_flag e)
                (new_events w c)
           \<and> new_events c f =
                (if MS9150 cfg \<or> MS5883L cfg \<or> ADXL345 cfg
                 then if fst (ask en Mower_hasFlipped c)
                      then [Ask Mower_hasFlipped True, Serial_print ''Mower has flipped '',
                            Mower_stopCutter, Mower_stop, Error_flag ERROR_TILT]
                      else [Ask Mower_hasFlipped False]
                 else [])
           \<and> new_events f d =
                (if Lift_Sensor cfg
                 then if fst (ask en Mower_isLifted f)
                      then [Ask Mower_isLifted True, Serial_println ''Mower is lifted'',
                            Mower_stopCutter, Mower_stop, Mower_runBackward FULLSPEED,
                            Delay 2000, Ask Mower_isLifted again]
                           @ (if again then [Error_flag ERROR_LIFT] else [])
                           @ [Mower_randomTurn False]
                      else [Ask Mower_isLifted False]
                 else []))"
proof -
  have t: "trace (loop cfg en w) = trace (dispatch cfg en (at_dispatch cfg en w)) @
             new_events (dispatch cfg en (at_dispatch cfg en w)) (loop cfg en w)"
    unfolding new_events_def
    by (simp add: loop_after_dispatch [OF assms] Let_def del: trace_at_dispatch trace_dispatch)
  have d: "at_dispatch cfg en w = checkIfLifted cfg en (checkIfFlipped cfg en (at_checks en w))"
    by (simp add: at_dispatch_def)
  have s: "trace (loop cfg en w) = trace w @ new_events w (at_checks en w)
             @ new_events (at_checks en w) (checkIfFlipped cfg en (at_checks en w))
             @ new_events (checkIfFlipped cfg en (at_checks en w)) (at_dispatch cfg en w)
             @ new_events (at_dispatch cfg en w) (dispatch cfg en (at_dispatch cfg en w))
             @ new_events (dispatch cfg en (at_dispatch cfg en w)) (loop cfg en w)"
    by (simp add: t at_dispatch_def del: trace_loop)
  have l: "new_events (checkIfFlipped cfg en (at_checks en w)) (at_dispatch cfg en w) =
             (if Lift_Sensor cfg
              then if fst (ask en Mower_isLifted (checkIfFlipped cfg en (at_checks en w)))
                   then [Ask Mower_isLifted True, Serial_println ''Mower is lifted'',
                         Mower_stopCutter, Mower_stop, Mower_runBackward FULLSPEED, Delay 2000,
                         Ask Mower_isLifted
                           (fst (ask en Mower_isLifted
                              (emits [Serial_println ''Mower is lifted'', Mower_stopCutter,
                                      Mower_stop, Mower_runBackward FULLSPEED, Delay 2000]
                                 (snd (ask en Mower_isLifted
                                    (checkIfFlipped cfg en (at_checks en w)))))))]
                        @ (if fst (ask en Mower_isLifted
                              (emits [Serial_println ''Mower is lifted'', Mower_stopCutter,
                                      Mower_stop, Mower_runBackward FULLSPEED, Delay 2000]
                                 (snd (ask en Mower_isLifted
                                    (checkIfFlipped cfg en (at_checks en w))))))
                           then [Error_flag ERROR_LIFT] else [])
                        @ [Mower_randomTurn False]
                   else [Ask Mower_isLifted False]
              else [])"
    using events_checkIfLifted [where w = "checkIfFlipped cfg en (at_checks en w)"
        and cfg = cfg and en = en, unfolded Let_def]
    by (simp only: d)
  show ?thesis
    unfolding Let_def
    using s d l at_checks_no_motor [of w en]
      events_checkIfFlipped [where w = "at_checks en w" and cfg = cfg and en = en]
    by (intro conjI) assumption+
qed

text \<open>
  A Mowing cycle, with a motion sensor, in which the mower has flipped.
\<close>

theorem safety_checks_before_dispatch_witness:
  "state (enter_cycle (env_script [10, 16] 20000 (\<lambda>_. MOWING)) (world0 MOWING)) \<noteq> SETUP_DEBUG
   \<and> fst (ask (env_script [10, 16] 20000 (\<lambda>_. MOWING)) Mower_hasFlipped (at_checks (env_script [10, 16] 20000 (\<lambda>_. MOWING)) (world0 MOWING)))
   \<and> new_events (at_checks (env_script [10, 16] 20000 (\<lambda>_. MOWING)) (world0 MOWING))
        (checkIfFlipped cfg_full (env_script [10, 16] 20000 (\<lambda>_. MOWING)) (at_checks (env_script [10, 16] 20000 (\<lambda>_. MOWING)) (world0 MOWING)))
       = [Ask Mower_hasFlipped True, Serial_print ''Mower has flipped '',
          Mower_stopCutter, Mower_stop, Error_flag ERROR_TILT]"
proof -
  let ?e = "env_script [10, 16] 20000 (\<lambda>_. MOWING)"
  let ?w = "world0 MOWING"
  have h1: "state (enter_cycle ?e ?w) \<noteq> SETUP_DEBUG"
    by (simp add: concrete tryEnterSetupDebugMode_def)
  have h2: "fst (ask ?e Mower_hasFlipped (at_checks ?e ?w))"
    by (simp add: concrete run_cycle)
  have h3: "MS9150 cfg_full"
    by (simp add: cfg_full_def)
  show ?thesis
    using safety_checks_before_dispatch [OF h1, of cfg_full] h1 h2 h3 by (simp add: Let_def)
qed

text \<open>
  The claim as stated fails where it says that the stop and the flag come before any other
  action of the cycle: in this cycle with a flipped mower, the call of the debug
  collaborator, the selection and poll of both coils, the battery update, the display update
  and a line on the serial port all precede \<^verbatim>\<open>Mower.stopCutter()\<close>. The whole cycle is listed.
\<close>

theorem tilt_stop_not_first_action_counterexample:
  "new_events (world0 MOWING) (loop cfg_full (env_script [10, 16] 20000 (\<lambda>_. MOWING)) (world0 MOWING)) =
     [TryEnterSetupDebugMode MOWING MOWING, Millis 20000,
      Sensor_select 0, Ask Sensor_isOutOfBounds False,
      Sensor_select 1, Ask Sensor_isOutOfBounds False,
      Battery_updateVoltage, Millis 20000, Display_update, Millis 20000,
      Ask Mower_hasFlipped True, Serial_print ''Mower has flipped '',
      Mower_stopCutter, Mower_stop, Error_flag ERROR_TILT,
      Ask Mower_isLifted False,
      Ask Battery_mustCharge True,
      Serial_print ([CHR 0x0A, CHR 0x0A] @ ''looptime : ''), Millis 20000,
      Serial_println_ulong 0]"
  by (simp add: concrete run_cycle doMowing_def cong: let_weak_cong)

subsection \<open>C2: the battery must be charged while mowing\<close>

text \<open>
  Claim C2, as amended. If \<^verbatim>\<open>Battery.mustCharge()\<close> answers true in a cycle dispatched to
  Mowing, the state is LookingForBoundary at the end of that cycle, the handler does nothing
  but ask the battery, and the rest of the cycle (the loop-time report) issues no motor or
  cutter command: no forward motion, no cutter start, and no cutter stop either. The cutter
  is stopped by the LookingForBoundary handler: in the following cycle, when it is dispatched
  to LookingForBoundary, \<^verbatim>\<open>Mower.stopCutter()\<close> is the first thing the handler does.
\<close>

theorem mowing_must_charge:
  assumes "state (at_dispatch cfg en w) = MOWING"
      and "fst (ask en Battery_mustCharge (at_dispatch cfg en w))"
  shows "state (loop cfg en w) = LOOKING_FOR_BWF
       \<and> new_events (at_dispatch cfg en w) (dispatch cfg en (at_dispatch cfg en w)) =
            [Ask Battery_mustCharge True]
       \<and> list_all (\<lambda>e. \<not> motor_command e)
            (new_events (dispatch cfg en (at_dispatch cfg en w)) (loop cfg en w))
       \<and> (state (at_dispatch cfg en (loop cfg en w)) = LOOKING_FOR_BWF \<longrightarrow>
            (\<exists>rest. new_events (at_dispatch cfg en (loop cfg en w))
                      (dispatch cfg en (at_dispatch cfg en (loop cfg en w)))
                    = Mower_stopCutter # rest))"
proof -
  have ne: "state (enter_cycle en w) \<noteq> SETUP_DEBUG"
    using assms(1) by simp
  have d: "dispatch cfg en (at_dispatch cfg en w) =
           (snd (ask en Battery_mustCharge (at_dispatch cfg en w)))\<lparr>state := LOOKING_FOR_BWF\<rparr>"
    using assms by (simp add: dispatch_def doMowing_def Let_def split_def del: state_at_dispatch)
  have e: "new_events (at_dispatch cfg en w) (dispatch cfg en (at_dispatch cfg en w)) =
            [Ask Battery_mustCharge True]"
    unfolding new_events_def d using assms(2) by (simp del: trace_at_dispatch)
  have s: "state (loop cfg en w) = LOOKING_FOR_BWF"
    using fields_loop(1) [OF ne, of cfg] by (simp add: d)
  have n: "\<And>W. state W = LOOKING_FOR_BWF \<Longrightarrow>
             \<exists>rest. new_events W (dispatch cfg en W) = Mower_stopCutter # rest"
    using events_doLookForBWF by (simp add: dispatch_def)
  show ?thesis
    using e s loop_report_no_motor [OF ne, of cfg] n by blast
qed

text \<open>
  A Mowing cycle with a battery that must be charged, followed by a cycle in which the
  debug collaborator hands back LookingForBoundary.
\<close>

theorem mowing_must_charge_witness:
  "state (at_dispatch cfg_full
            (env_script [10] 1000 (\<lambda>n. if n = 0 then MOWING else LOOKING_FOR_BWF))
            (world0 MOWING)) = MOWING
   \<and> fst (ask (env_script [10] 1000 (\<lambda>n. if n = 0 then MOWING else LOOKING_FOR_BWF))
            Battery_mustCharge
            (at_dispatch cfg_full
               (env_script [10] 1000 (\<lambda>n. if n = 0 then MOWING else LOOKING_FOR_BWF))
               (world0 MOWING)))
   \<and> state (loop cfg_full
              (env_script [10] 1000 (\<lambda>n. if n = 0 then MOWING else LOOKING_FOR_BWF))
              (world0 MOWING)) = LOOKING_FOR_BWF
   \<and> (\<exists>rest. new_events
         (at_dispatch cfg_full
            (env_script [10] 1000 (\<lambda>n. if n = 0 then MOWING else LOOKING_FOR_BWF))
            (loop cfg_full
               (env_script [10] 1000 (\<lambda>n. if n = 0 then MOWING else LOOKING_FOR_BWF))
               (world0 MOWING)))
         (dispatch cfg_full
            (env_script [10] 1000 (\<lambda>n. if n = 0 then MOWING else LOOKING_FOR_BWF))
            (at_dispatch cfg_full
               (env_script [10] 1000 (\<lambda>n. if n = 0 then MOWING else LOOKING_FOR_BWF))
               (loop cfg_full
                  (env_script [10] 1000 (\<lambda>n. if n = 0 then MOWING else LOOKING_FOR_BWF))
                  (world0 MOWING))))
       = Mower_stopCutter # rest)"
proof -
  let ?e = "env_script [10] 1000 (\<lambda>n. if n = 0 then MOWING else LOOKING_FOR_BWF)"
  let ?w = "world0 MOWING"
  have h1: "state (at_dispatch cfg_full ?e ?w) = MOWING"
    by (simp add: concrete tryEnterSetupDebugMode_def)
  have h2: "fst (ask ?e Battery_mustCharge (at_dispatch cfg_full ?e ?w))"
    by (simp add: concrete run_cycle)
  have h3: "state (at_dispatch cfg_full ?e (loop cfg_full ?e ?w)) = LOOKING_FOR_BWF"
    by (simp add: concrete run_cycle doMowing_def)
  show ?thesis
    using mowing_must_charge [OF h1 h2] h1 h2 h3 by simp
qed

text \<open>
  The claim as stated fails: in the cycle in which \<^verbatim>\<open>mustCharge()\<close> answers true, no
  \<^verbatim>\<open>Mower.stopCutter()\<close> is issued. The whole cycle is listed.
\<close>

theorem mowing_must_charge_counterexample:
  "state (at_dispatch cfg_full (env_script [10] 1000 (\<lambda>_. MOWING)) (world0 MOWING)) = MOWING
   \<and> fst (ask (env_script [10] 1000 (\<lambda>_. MOWING)) Battery_mustCharge
            (at_dispatch cfg_full (env_script [10] 1000 (\<lambda>_. MOWING)) (world0 MOWING)))
   \<and> new_events (world0 MOWING)
        (loop cfg_full (env_script [10] 1000 (\<lambda>_. MOWING)) (world0 MOWING)) =
       [TryEnterSetupDebugMode MOWING MOWING, Millis 1000,
        Sensor_select 0, Ask Sensor_isOutOfBounds False,
        Sensor_select 1, Ask Sensor_isOutOfBounds False,
        Battery_updateVoltage, Millis 1000,
        Ask Mower_hasFlipped False, Ask Mower_isLifted False,
        Ask Battery_mustCharge True,
        Serial_print ([CHR 0x0A, CHR 0x0A] @ ''looptime : ''), Millis 1000,
        Serial_println_ulong 0]
   \<and> Mower_stopCutter
       \<notin> set (new_events (world0 MOWING)
                (loop cfg_full (env_script [10] 1000 (\<lambda>_. MOWING)) (world0 MOWING)))"
  by (simp add: concrete run_cycle doMowing_def)

subsection \<open>C3: counting collisions while docking\<close>

text \<open>
  Claim C3, as amended. When \<^verbatim>\<open>doDocking\<close> finds the wheels overloaded, it runs the collision
  body in a world \<open>W\<close> with the counter and the time of the last collision it was called
  with. The body reads the clock; with \<open>gap\<close> that reading minus \<^verbatim>\<open>lastCollision\<close> (unsigned,
  32 bits), the collision is counted as number \<open>c\<close>: 1 when the gap exceeds 10000 ms (the
  counter is reset to 0 and then incremented), the old count plus one otherwise. It reads
  the clock again and stores that reading in \<^verbatim>\<open>lastCollision\<close>, where the next collision
  finds it; then it prints \<open>c\<close> and waits a second. The escape turn \<^verbatim>\<open>turnRight(70)\<close> is
  made exactly when \<open>c = 3\<close> and the charger is not felt after the wait. If the charger is
  felt, the handler stops the motors and the state becomes Charging. If it is not felt and
  \<open>c = 3\<close>, the handler ends with: back off, wait 1300 ms, turn right 70, stop, read the clock
  into \<^verbatim>\<open>lastOutside\<close>, run forward; the counter is 0 and the state is unchanged. If it is
  not felt and \<open>c\<close> is 1 or 2, the mower backs off for 1300 ms, makes no escape turn, and the
  counter is \<open>c\<close>.
\<close>

theorem docking_collision_counting:
  assumes "Ask Mower_wheelsAreOverloaded True \<in> set (new_events w (doDocking en w))"
  shows "\<exists>W. doDocking en w = docking_collision en W
       \<and> (let gap = fst (millis en W) - lastCollision w;
               c = (if gap > 10000 then 1 else collisionCount w + 1);
               evs = new_events W (docking_collision en W);
               charged = (Ask Battery_isBeingCharged True \<in> set evs);
               w' = doDocking en w
           in take 5 evs = [Millis (fst (millis en W)), Millis (lastCollision w'),
                            Serial_print ''Collision while docking: '',
                            Serial_println_int (sint c), Delay 1000]
            \<and> (Mower_turnRight 70 \<in> set evs \<longleftrightarrow> c = 3 \<and> \<not> charged)
            \<and> (charged \<longrightarrow> state w' = CHARGING
                   \<and> suffix [Ask Battery_isBeingCharged True, Mower_stop] evs)
            \<and> (\<not> charged \<and> c = 3 \<longrightarrow>
                   collisionCount w' = 0 \<and> state w' = state w
                 \<and> suffix [Mower_runBackward FULLSPEED, Delay 1300, Mower_turnRight 70,
                            Mower_stop, Millis (lastOutside w'), Mower_runForward FULLSPEED] evs)
            \<and> (\<not> charged \<and> (c = 1 \<or> c = 2) \<longrightarrow>
                   collisionCount w' = c
                 \<and> take 3 (drop 5 evs) = [Ask Battery_isBeingCharged False,
                                            Mower_runBackward FULLSPEED, Delay 1300]
                 \<and> Mower_turnRight 70 \<notin> set evs))"
proof -
  obtain W where W: "doDocking en w = docking_collision en W"
      "collisionCount W = collisionCount w" "lastCollision W = lastCollision w"
      "state W = state w"
    using doDocking_overloaded [OF assms] by blast
  show ?thesis
    apply (rule exI [of _ W])
    apply (rule conjI [OF W(1)])
    unfolding W(1)
    using docking_collision_outcome [of en W, unfolded W(2,3,4)]
    apply assumption
    done
qed

text \<open>
  The third collision, 4 s after the second, with no charger: the escape turn, and the
  time of this collision stored.
\<close>

theorem docking_collision_counting_witness:
  "Ask Mower_wheelsAreOverloaded True \<in> set (new_events ((world0 DOCKING)\<lparr>collisionCount := 2, lastCollision := 1000\<rparr>) (doDocking (env_script [2] 5000 (\<lambda>_. DOCKING)) ((world0 DOCKING)\<lparr>collisionCount := 2, lastCollision := 1000\<rparr>)))
   \<and> (\<exists>W. doDocking (env_script [2] 5000 (\<lambda>_. DOCKING)) ((world0 DOCKING)\<lparr>collisionCount := 2, lastCollision := 1000\<rparr>) = docking_collision (env_script [2] 5000 (\<lambda>_. DOCKING)) W)
   \<and> collisionCount (doDocking (env_script [2] 5000 (\<lambda>_. DOCKING)) ((world0 DOCKING)\<lparr>collisionCount := 2, lastCollision := 1000\<rparr>)) = 0
   \<and> lastCollision (doDocking (env_script [2] 5000 (\<lambda>_. DOCKING)) ((world0 DOCKING)\<lparr>collisionCount := 2, lastCollision := 1000\<rparr>)) = 5000
   \<and> new_events ((world0 DOCKING)\<lparr>collisionCount := 2, lastCollision := 1000\<rparr>) (doDocking (env_script [2] 5000 (\<lambda>_. DOCKING)) ((world0 DOCKING)\<lparr>collisionCount := 2, lastCollision := 1000\<rparr>)) =
       [Mower_stopCutter, Ask Battery_isBeingCharged False, Ask Mower_wheelsAreOverloaded True,
        Millis 5000, Millis 5000, Serial_print ''Collision while docking: '',
        Serial_println_int 3, Delay 1000, Ask Battery_isBeingCharged False,
        Mower_runBackward FULLSPEED, Delay 1300, Mower_turnRight 70, Mower_stop, Millis 5000,
        Mower_runForward FULLSPEED]"
proof -
  let ?e = "env_script [2] 5000 (\<lambda>_. DOCKING)"
  let ?w = "(world0 DOCKING)\<lparr>collisionCount := 2, lastCollision := 1000\<rparr>"
  have h: "Ask Mower_wheelsAreOverloaded True \<in> set (new_events ?w (doDocking ?e ?w))"
    by (simp add: concrete run_docking prims Let_def split_def LEFT_def new_events_def)
  have ev: "new_events ?w (doDocking ?e ?w) =
       [Mower_stopCutter, Ask Battery_isBeingCharged False, Ask Mower_wheelsAreOverloaded True,
        Millis 5000, Millis 5000, Serial_print ''Collision while docking: '',
        Serial_println_int 3, Delay 1000, Ask Battery_isBeingCharged False,
        Mower_runBackward FULLSPEED, Delay 1300, Mower_turnRight 70, Mower_stop, Millis 5000,
        Mower_runForward FULLSPEED]"
    by (simp add: concrete run_docking prims Let_def split_def LEFT_def new_events_def)
  have c: "collisionCount (doDocking ?e ?w) = 0" "lastCollision (doDocking ?e ?w) = 5000"
    by (simp_all add: concrete run_docking prims Let_def split_def LEFT_def)
  show ?thesis
    using docking_collision_counting [OF h] h ev c by blast
qed

text \<open>
  The claim as stated fails: a third collision within the window after which the charger
  is felt does not take the escape turn; the state becomes Charging and the counter is
  left at 3.
\<close>

theorem third_collision_with_contact_counterexample:
  "new_events ((world0 DOCKING)\<lparr>collisionCount := 2, lastCollision := 1000\<rparr>)
        (doDocking (env_script [2, 8] 5000 (\<lambda>_. DOCKING))
           ((world0 DOCKING)\<lparr>collisionCount := 2, lastCollision := 1000\<rparr>)) =
       [Mower_stopCutter, Ask Battery_isBeingCharged False, Ask Mower_wheelsAreOverloaded True,
        Millis 5000, Millis 5000, Serial_print ''Collision while docking: '',
        Serial_println_int 3, Delay 1000, Ask Battery_isBeingCharged True, Mower_stop]
   \<and> Mower_turnRight 70
       \<notin> set (new_events ((world0 DOCKING)\<lparr>collisionCount := 2, lastCollision := 1000\<rparr>)
                (doDocking (env_script [2, 8] 5000 (\<lambda>_. DOCKING))
                   ((world0 DOCKING)\<lparr>collisionCount := 2, lastCollision := 1000\<rparr>)))
   \<and> collisionCount (doDocking (env_script [2, 8] 5000 (\<lambda>_. DOCKING))
        ((world0 DOCKING)\<lparr>collisionCount := 2, lastCollision := 1000\<rparr>)) = 3
   \<and> state (doDocking (env_script [2, 8] 5000 (\<lambda>_. DOCKING))
        ((world0 DOCKING)\<lparr>collisionCount := 2, lastCollision := 1000\<rparr>)) = CHARGING"
  by (simp add: concrete run_docking prims Let_def split_def LEFT_def new_events_def)

subsection \<open>C4: charging contact while docking\<close>

text \<open>
  Claim C4. In a cycle dispatched to Docking, if any \<^verbatim>\<open>Battery.isBeingCharged()\<close> call of
  the handler answers true (the one at its start or the one a second after a collision),
  the handler ends with that answer followed by \<^verbatim>\<open>Mower.stop()\<close>, the state is Charging at
  the end of the cycle, and no motor command follows in the cycle. This holds for every
  value of the collision counter.
\<close>

theorem docking_charging_contact:
  assumes "state (at_dispatch cfg en w) = DOCKING"
      and "Ask Battery_isBeingCharged True
             \<in> set (new_events (at_dispatch cfg en w) (dispatch cfg en (at_dispatch cfg en w)))"
  shows "state (loop cfg en w) = CHARGING
       \<and> suffix [Ask Battery_isBeingCharged True, Mower_stop]
            (new_events (at_dispatch cfg en w) (dispatch cfg en (at_dispatch cfg en w)))
       \<and> list_all (\<lambda>e. \<not> motor_command e)
            (new_events (dispatch cfg en (at_dispatch cfg en w)) (loop cfg en w))"
proof -
  have ne: "state (enter_cycle en w) \<noteq> SETUP_DEBUG"
    using assms(1) by simp
  have d: "dispatch cfg en (at_dispatch cfg en w) = doDocking en (at_dispatch cfg en w)"
    using assms(1) by (simp add: dispatch_def)
  show ?thesis
    using assms(2) doDocking_charged [of "at_dispatch cfg en w" en]
      loop_report_no_motor [OF ne, of cfg] fields_loop(1) [OF ne, of cfg]
    by (simp add: d)
qed

text \<open>
  Two collisions counted already, a third one, and the charger felt after the wait.
\<close>

theorem docking_charging_contact_witness:
  "state (at_dispatch cfg_full (env_script [12, 18] 1000 (\<lambda>_. DOCKING))
            ((world0 DOCKING)\<lparr>collisionCount := 2\<rparr>)) = DOCKING
   \<and> Ask Battery_isBeingCharged True
       \<in> set (new_events
                (at_dispatch cfg_full (env_script [12, 18] 1000 (\<lambda>_. DOCKING))
                   ((world0 DOCKING)\<lparr>collisionCount := 2\<rparr>))
                (dispatch cfg_full (env_script [12, 18] 1000 (\<lambda>_. DOCKING))
                   (at_dispatch cfg_full (env_script [12, 18] 1000 (\<lambda>_. DOCKING))
                      ((world0 DOCKING)\<lparr>collisionCount := 2\<rparr>))))
   \<and> state (loop cfg_full (env_script [12, 18] 1000 (\<lambda>_. DOCKING))
              ((world0 DOCKING)\<lparr>collisionCount := 2\<rparr>)) = CHARGING"
proof -
  let ?e = "env_script [12, 18] 1000 (\<lambda>_. DOCKING)"
  let ?w = "(world0 DOCKING)\<lparr>collisionCount := 2\<rparr>"
  have h1: "state (at_dispatch cfg_full ?e ?w) = DOCKING"
    by (simp add: concrete tryEnterSetupDebugMode_def)
  have h2: "Ask Battery_isBeingCharged True
              \<in> set (new_events (at_dispatch cfg_full ?e ?w)
                       (dispatch cfg_full ?e (at_dispatch cfg_full ?e ?w)))"
    by (simp add: concrete run_cycle run_docking)
  show ?thesis
    using docking_charging_contact [OF h1 h2] h1 h2 by simp
qed

subsection \<open>C5: the boundary wire is found\<close>

text \<open>
  Claim C5. In a cycle dispatched to LookingForBoundary whose snapshot of the left coil is
  Outside, the state is Docking at the end of the cycle, and from the switch on the cycle
  consists of \<^verbatim>\<open>Mower.stopCutter()\<close> and the loop-time report: no random turn, no ramp, no
  obstacle turn. By \<open>snapshot_is_poll\<close> the snapshot is the answer the left coil gave when
  it was polled at the start of this cycle.
\<close>

theorem look_for_bwf_left_outside:
  assumes "state (at_dispatch cfg en w) = LOOKING_FOR_BWF"
      and "sensorOutside (at_dispatch cfg en w) LEFT"
  shows "state (loop cfg en w) = DOCKING
       \<and> (\<exists>t t0. new_events (at_dispatch cfg en w) (loop cfg en w) =
            [Mower_stopCutter, Serial_print ([CHR 0x0A, CHR 0x0A] @ ''looptime : ''),
             Millis t, Serial_println_ulong (t - t0)])"
proof -
  have ne: "state (enter_cycle en w) \<noteq> SETUP_DEBUG"
    using assms(1) by simp
  have d: "dispatch cfg en (at_dispatch cfg en w) =
           (emit Mower_stopCutter (at_dispatch cfg en w))\<lparr>state := DOCKING\<rparr>"
    using assms by (simp add: dispatch_def doLookForBWF_def Let_def)
  show ?thesis
    by (simp add: loop_after_dispatch [OF ne] d Let_def new_events_def del: state_at_dispatch trace_at_dispatch)
qed

text \<open>
  The left coil (polled at position 3 of the cycle) reports out of bounds.
\<close>

theorem look_for_bwf_left_outside_witness:
  "state (at_dispatch cfg_full (env_script [3] 1000 (\<lambda>_. LOOKING_FOR_BWF)) (world0 LOOKING_FOR_BWF))
     = LOOKING_FOR_BWF
   \<and> sensorOutside (at_dispatch cfg_full (env_script [3] 1000 (\<lambda>_. LOOKING_FOR_BWF))
        (world0 LOOKING_FOR_BWF)) LEFT
   \<and> state (loop cfg_full (env_script [3] 1000 (\<lambda>_. LOOKING_FOR_BWF)) (world0 LOOKING_FOR_BWF))
     = DOCKING"
proof -
  let ?e = "env_script [3] 1000 (\<lambda>_. LOOKING_FOR_BWF)" and ?w = "world0 LOOKING_FOR_BWF"
  have h1: "state (at_dispatch cfg_full ?e ?w) = LOOKING_FOR_BWF"
    by (simp add: concrete tryEnterSetupDebugMode_def)
  have h2: "sensorOutside (at_dispatch cfg_full ?e ?w) LEFT"
    by (simp add: concrete run_cycle)
  show ?thesis
    using look_for_bwf_left_outside [OF h1 h2] h1 h2 by simp
qed

subsection \<open>C6: launching from the charger\<close>

text \<open>
  Claim C6. The claim asks that the mower leaves the charger only inside the window of the
  scheduling clock when that collaborator is present. The \<^verbatim>\<open>Clock\<close> object is declared under
  \<^verbatim>\<open>__RTC_CLOCK__\<close>, but \<^verbatim>\<open>doCharging\<close> consults it under \<^verbatim>\<open>__RTC__CLOCK__\<close>. In a build
  with the clock (\<^verbatim>\<open>__RTC_CLOCK__\<close> defined, the other spelling not), a Charging cycle with
  charging contact, a full battery and a boundary signal launches, and \<^verbatim>\<open>Clock.timeToCut()\<close>
  is never called: the calls of the handler are listed. The rest of the claim holds, see
  \<open>doCharging_stops_first\<close>, \<open>redock_if_lost_nudge\<close> and \<open>launch_if_ready_needs\<close>.
\<close>

theorem charging_launches_without_clock:
  "RTC_CLOCK cfg_full
   \<and> state (doCharging cfg_full (env_script [2, 5, 6] 1000 (\<lambda>_. CHARGING)) (world0 CHARGING))
       = LAUNCHING
   \<and> new_events (world0 CHARGING)
        (doCharging cfg_full (env_script [2, 5, 6] 1000 (\<lambda>_. CHARGING)) (world0 CHARGING)) =
       [Mower_stop, Mower_stopCutter, Ask Battery_isBeingCharged True, Millis 1000,
        Millis 1000, Ask Battery_isFullyCharged True, Ask Sensor_isInside True]"
  by (simp add: concrete doCharging_def note_contact_def redock_if_lost_def launch_if_ready_def
        prims Let_def split_def new_events_def)

subsection \<open>C7: the cutter is switched off first\<close>

text \<open>
  Claim C7. At boot the first call \<^verbatim>\<open>setup()\<close> makes is \<^verbatim>\<open>CutterMotor.initialize()\<close>; the
  serial port, the pin configuration and the default levels follow it, in this order.
\<close>

theorem setup_cutter_initialize_first:
  "\<exists>rest. new_events w (setup_sketch cfg en w) =
      CutterMotor_initialize # Serial_begin 115200 # Defaults_definePinsInputOutput #
      Defaults_setDefaultLevels # rest
    \<and> trace (setup_sketch cfg en w) = trace w @ new_events w (setup_sketch cfg en w)"
  by (simp add: setup_sketch_def Let_def split_def new_events_def)

subsection \<open>C8: who owns the timers\<close>




subsection \<open>C9: the debug collaborator takes over\<close>

text \<open>
  Claim C9. When the debug collaborator answers \<^verbatim>\<open>SETUP_DEBUG\<close>, the cycle is over: the
  state is \<^verbatim>\<open>SETUP_DEBUG\<close>, the trace has grown by that one call, and every other variable
  (the snapshot \<^verbatim>\<open>sensorOutside\<close> and the display timer among them) is unchanged. No coil is
  polled, the battery voltage and the display are not updated, no safety check and no state
  handler runs.
\<close>

theorem loop_setup_debug_returns_at_once:
  assumes "fst (tryEnterSetupDebugMode en (state w) w) = SETUP_DEBUG"
  shows "loop cfg en w =
           w\<lparr>state := SETUP_DEBUG,
             trace := trace w @ [TryEnterSetupDebugMode (state w) SETUP_DEBUG]\<rparr>"
  using assms by (simp add: loop_def enter_cycle_def tryEnterSetupDebugMode_def emit_def Let_def)

theorem loop_setup_debug_returns_at_once_witness:
  "fst (tryEnterSetupDebugMode (env_script [] 0 (\<lambda>_. SETUP_DEBUG)) (state (world0 MOWING)) (world0 MOWING))
     = SETUP_DEBUG
   \<and> loop cfg_full (env_script [] 0 (\<lambda>_. SETUP_DEBUG)) (world0 MOWING) =
       (world0 MOWING)\<lparr>state := SETUP_DEBUG,
          trace := [TryEnterSetupDebugMode MOWING SETUP_DEBUG]\<rparr>"
  using loop_setup_debug_returns_at_once
          [of "env_script [] 0 (\<lambda>_. SETUP_DEBUG)" "world0 MOWING" cfg_full]
  by (simp add: concrete tryEnterSetupDebugMode_def)

subsection \<open>C10: the escape turn\<close>

text \<open>
  Claim C10. In a cycle dispatched to Docking in which the escape turn \<^verbatim>\<open>turnRight(70)\<close>
  is made, the collision counter is 0 at the end of the cycle, the handler ends with: turn
  right 70, stop, a clock reading, run forward at full speed; \<^verbatim>\<open>lastOutside\<close> is that clock
  reading; the state is still Docking, so the boundary-lost transition did not fire; and no
  motor command follows the run forward in the cycle.
\<close>

theorem docking_escape_turn:
  assumes "state (at_dispatch cfg en w) = DOCKING"
      and "Mower_turnRight 70
             \<in> set (new_events (at_dispatch cfg en w) (dispatch cfg en (at_dispatch cfg en w)))"
  shows "collisionCount (loop cfg en w) = 0
       \<and> state (loop cfg en w) = DOCKING
       \<and> suffix [Mower_turnRight 70, Mower_stop, Millis (lastOutside (loop cfg en w)),
                 Mower_runForward FULLSPEED]
            (new_events (at_dispatch cfg en w) (dispatch cfg en (at_dispatch cfg en w)))
       \<and> list_all (\<lambda>e. \<not> motor_command e)
            (new_events (dispatch cfg en (at_dispatch cfg en w)) (loop cfg en w))"
proof -
  have ne: "state (enter_cycle en w) \<noteq> SETUP_DEBUG"
    using assms(1) by simp
  have d: "dispatch cfg en (at_dispatch cfg en w) = doDocking en (at_dispatch cfg en w)"
    using assms(1) by (simp add: dispatch_def)
  show ?thesis
    using assms doDocking_escape [of "at_dispatch cfg en w" en]
      loop_report_no_motor [OF ne, of cfg] fields_loop(1,2,3) [OF ne, of cfg]
    by (simp add: d)
qed

text \<open>
  Two collisions counted already, a third one 1 s after boot, and no charger.
\<close>

theorem docking_escape_turn_witness:
  "state (at_dispatch cfg_full (env_script [12] 1000 (\<lambda>_. DOCKING))
            ((world0 DOCKING)\<lparr>collisionCount := 2\<rparr>)) = DOCKING
   \<and> Mower_turnRight 70
       \<in> set (new_events
                (at_dispatch cfg_full (env_script [12] 1000 (\<lambda>_. DOCKING))
                   ((world0 DOCKING)\<lparr>collisionCount := 2\<rparr>))
                (dispatch cfg_full (env_script [12] 1000 (\<lambda>_. DOCKING))
                   (at_dispatch cfg_full (env_script [12] 1000 (\<lambda>_. DOCKING))
                      ((world0 DOCKING)\<lparr>collisionCount := 2\<rparr>))))
   \<and> collisionCount (loop cfg_full (env_script [12] 1000 (\<lambda>_. DOCKING))
              ((world0 DOCKING)\<lparr>collisionCount := 2\<rparr>)) = 0
   \<and> state (loop cfg_full (env_script [12] 1000 (\<lambda>_. DOCKING))
              ((world0 DOCKING)\<lparr>collisionCount := 2\<rparr>)) = DOCKING"
proof -
  let ?e = "env_script [12] 1000 (\<lambda>_. DOCKING)"
  let ?w = "(world0 DOCKING)\<lparr>collisionCount := 2\<rparr>"
  have h1: "state (at_dispatch cfg_full ?e ?w) = DOCKING"
    by (simp add: concrete tryEnterSetupDebugMode_def)
  have h2: "Mower_turnRight 70
              \<in> set (new_events (at_dispatch cfg_full ?e ?w)
                       (dispatch cfg_full ?e (at_dispatch cfg_full ?e ?w)))"
    by (simp add: concrete run_cycle run_docking)
  show ?thesis
    using docking_escape_turn [OF h1 h2] h1 h2 by simp
qed

end
